theory Spec2Isabelle
  imports Main
begin

section \<open>Data model of the tester package\<close>

text \<open>
  The development embeds \<^verbatim>\<open>go/tester/tester.go\<close> and \<^verbatim>\<open>go/tester/tracer.go\<close>.
  Mutable receivers (\<^verbatim>\<open>*testerState\<close>, \<^verbatim>\<open>*Tester\<close>, \<^verbatim>\<open>*Tracer\<close>) become records
  that are passed in and returned updated. Everything a function does to the outside
  (backend round trips, file writes, reporter calls, calls of the wrapped runner) is
  appended to a log of events, and every answer of the outside is read from an
  environment record whose functions see the log so far, so an answer may depend on
  everything that happened before the call.
\<close>

subsection \<open>Errors and call outcomes\<close>

text \<open>
  Go \<^verbatim>\<open>error\<close> values. \<open>Errorf\<close> is \<^verbatim>\<open>fmt.Errorf\<close> with the formatted message,
  \<open>Wrapped m err\<close> is \<^verbatim>\<open>fmt.Errorf\<close> with a format that ends in \<^verbatim>\<open>: %w\<close> or \<^verbatim>\<open>: %v\<close>
  (\<open>m\<close> is the text before the colon), \<open>External\<close> is an error handed back by a
  collaborator (a connection, the file system, a library), and \<open>Aggregated m\<close> is the
  new error with message \<open>m\<close> that \<^verbatim>\<open>vterrors.Aggregate\<close> builds from a slice of
  two or more; its error code is not part of this model. \<open>Error\<close> is the method
  \<^verbatim>\<open>Error()\<close>, the message of an error.
\<close>

datatype error =
    Errorf string
  | External string
  | Wrapped string error
  | Aggregated string

primrec Error :: "error \<Rightarrow> string" where
  "Error (Errorf m) = m"
| "Error (External m) = m"
| "Error (Wrapped m err) = m @ '': '' @ Error err"
| "Error (Aggregated m) = m"

text \<open>A call either returns its value or panics (index out of range, nil dereference).\<close>

datatype 'a outcome = Returned 'a | Panicked

subsection \<open>Directives, statements, run configuration\<close>

text \<open>The directive kinds of package \<^verbatim>\<open>typ\<close> that \<^verbatim>\<open>Tester.Run\<close> switches on, and the
  kinds it does not handle.\<close>

datatype CmdType =
    typ_Query | typ_Skip | typ_SkipIfBelowVersion | typ_Error | typ_VExplain
  | typ_WaitForAuthoritative | typ_RemoveFile | typ_VitessOnly | typ_MysqlOnly
  | typ_Reference | typ_Comment | typ_EmptyLine | typ_Unknown

text \<open>\<^verbatim>\<open>data.Query\<close>: the text, the line and the kind of one directive.\<close>

record data_Query =
  Query :: string
  Line :: int
  Type :: CmdType

text \<open>
  A parsed \<^verbatim>\<open>sqlparser.Statement\<close>, reduced to the two classifications the code asks
  for: \<^verbatim>\<open>sqlparser.IsDMLStatement(ast)\<close> and the type assertion
  \<^verbatim>\<open>ast.(sqlparser.SelectStatement)\<close>.
\<close>

datatype Statement = Statement (IsDMLStatement: bool) (isSelect: bool)

text \<open>\<^verbatim>\<open>QueryRunConfig\<close>; its field \<^verbatim>\<open>reference\<close> is \<open>cfg_reference\<close> here, since
  \<^verbatim>\<open>testerState\<close> has a field of the same name.\<close>

record QueryRunConfig =
  ast :: Statement
  vitess :: bool
  mysql :: bool
  cfg_reference :: bool

subsection \<open>Events and the environment\<close>

datatype event =
    VtExec string                               \<comment> \<open>\<^verbatim>\<open>VtConn.ExecuteFetch(sql, ...)\<close>\<close>
  | MySQLExec string                            \<comment> \<open>\<^verbatim>\<open>MySQLConn.ExecuteFetch(sql, ...)\<close>\<close>
  | InnerCall data_Query bool QueryRunConfig    \<comment> \<open>\<^verbatim>\<open>t.inner.runQuery(q, expectErr, cfg)\<close>\<close>
  | FileWrite string string                     \<comment> \<open>\<^verbatim>\<open>traceFile.Write(b)\<close>: the bytes passed, the bytes that reached the file\<close>
  | VersionCheck int string                     \<comment> \<open>\<^verbatim>\<open>utils.BinaryIsAtLeastAtVersion(version, binary)\<close>\<close>
  | AddTestCase string int
  | EndTestCase
  | AddFailure error
  | AddInfo string
  | Remove string                               \<comment> \<open>\<^verbatim>\<open>os.Remove(path)\<close>\<close>
  | WaitAuthoritative string string             \<comment> \<open>\<^verbatim>\<open>utils.WaitForAuthoritative(reporter, ks, tbl, ...)\<close>\<close>

text \<open>
  The collaborators. A result set is the list of its rows, each the list of its cells
  as \<^verbatim>\<open>ToString()\<close> renders them. \<open>file_Write\<close> answers \<open>None\<close> when the whole slice was
  written and \<open>Some (n, e)\<close> when the write failed with \<open>e\<close> after \<open>n\<close> bytes.
  \<open>json_Marshal\<close> is \<^verbatim>\<open>json.Marshal\<close> on a Go string, which cannot fail;
  \<open>json_Indent\<close> is \<^verbatim>\<open>json.Indent(&buf, src, "", "  ")\<close>, \<open>Parse\<close> is
  \<^verbatim>\<open>sqlparser.NewTestParser().Parse\<close>, \<open>TrimSpace\<close> is \<^verbatim>\<open>strings.TrimSpace\<close>, and
  \<open>findTable\<close> stands for \<^verbatim>\<open>Tester.findTable\<close>, a lookup in the vschema, whose
  content is not part of this model.
\<close>

record env =
  vt_ExecuteFetch :: "event list \<Rightarrow> string \<Rightarrow> error + string list list"
  mysql_ExecuteFetch :: "event list \<Rightarrow> string \<Rightarrow> error + string list list"
  inner_runQuery :: "event list \<Rightarrow> data_Query \<Rightarrow> bool \<Rightarrow> QueryRunConfig \<Rightarrow> error option outcome"
  file_Write :: "event list \<Rightarrow> string \<Rightarrow> (nat \<times> error) option"
  json_Marshal :: "string \<Rightarrow> string"
  json_Indent :: "string \<Rightarrow> error + string"
  BinaryIsAtLeastAtVersion :: "event list \<Rightarrow> int \<Rightarrow> string \<Rightarrow> bool"
  os_Remove :: "event list \<Rightarrow> string \<Rightarrow> error option"
  WaitForAuthoritative :: "event list \<Rightarrow> string \<Rightarrow> string \<Rightarrow> error option"
  Parse :: "string \<Rightarrow> error + Statement"
  findTable :: "event list \<Rightarrow> string \<Rightarrow> error + string"
  TrimSpace :: "string \<Rightarrow> string"

section \<open>The mode state (\<^verbatim>\<open>testerState\<close>)\<close>

record testerState =
  skip :: bool
  skipBinary :: string
  skipVersion :: int
  vitessOnly :: bool
  mysqlOnly :: bool
  reference :: bool

text \<open>\<^verbatim>\<open>&testerState{}\<close>: the zero value of every field.\<close>

definition fresh_state :: testerState where
  "fresh_state = \<lparr>skip = False, skipBinary = [], skipVersion = 0,
                   vitessOnly = False, mysqlOnly = False, reference = False\<rparr>"

definition referenceNext :: "testerState \<Rightarrow> testerState" where
  "referenceNext st =
     (if vitessOnly st \<or> mysqlOnly st \<or> skip st then st
      else st\<lparr>reference := True\<rparr>)"

definition shouldReference :: "testerState \<Rightarrow> bool \<times> testerState" where
  "shouldReference st =
     (if reference st then (True, st\<lparr>reference := False\<rparr>) else (False, st))"

definition skipNext :: "testerState \<Rightarrow> testerState" where
  "skipNext st =
     (if vitessOnly st \<or> mysqlOnly st \<or> reference st then st
      else st\<lparr>skip := True\<rparr>)"

definition skipIfBelow :: "string \<Rightarrow> int \<Rightarrow> testerState \<Rightarrow> testerState" where
  "skipIfBelow binary version st = st\<lparr>skipBinary := binary, skipVersion := version\<rparr>"

text \<open>\<^verbatim>\<open>shouldSkip\<close> returns its verdict, the updated state and the extended log: the
  version oracle is called in the second branch only.\<close>

definition shouldSkip :: "env \<Rightarrow> testerState \<Rightarrow> event list \<Rightarrow> bool \<times> testerState \<times> event list" where
  "shouldSkip E st log =
     (if skip st then (True, st\<lparr>skip := False\<rparr>, log)
      else if skipBinary st \<noteq> [] then
        (let okayToRun = BinaryIsAtLeastAtVersion E log (skipVersion st) (skipBinary st)
         in (\<not> okayToRun, st\<lparr>skipBinary := []\<rparr>,
             log @ [VersionCheck (skipVersion st) (skipBinary st)]))
      else (False, st, log))"

definition beginVitessOnly :: "testerState \<Rightarrow> error option \<times> testerState" where
  "beginVitessOnly st =
     (if vitessOnly st then (Some (Errorf ''nested vitess_only begin''), st)
      else if mysqlOnly st then (Some (Errorf ''cannot begin vitess_only within mysql_only''), st)
      else (None, st\<lparr>vitessOnly := True\<rparr>))"

definition endVitessOnly :: "testerState \<Rightarrow> error option \<times> testerState" where
  "endVitessOnly st =
     (if \<not> vitessOnly st then (Some (Errorf ''no vitess_only to end''), st)
      else (None, st\<lparr>vitessOnly := False\<rparr>))"

definition beginMySQLOnly :: "testerState \<Rightarrow> error option \<times> testerState" where
  "beginMySQLOnly st =
     (if mysqlOnly st then (Some (Errorf ''nested mysql_only begin''), st)
      else if vitessOnly st then (Some (Errorf ''cannot begin mysql_only within vitess_only''), st)
      else (None, st\<lparr>mysqlOnly := True\<rparr>))"

definition endMySQLOnly :: "testerState \<Rightarrow> error option \<times> testerState" where
  "endMySQLOnly st =
     (if \<not> mysqlOnly st then (Some (Errorf ''no vitess_only to end''), st)
      else (None, st\<lparr>mysqlOnly := False\<rparr>))"

section \<open>The trace recorder (\<^verbatim>\<open>Tracer\<close>)\<close>

text \<open>
  The fields of \<^verbatim>\<open>Tracer\<close> that change or are tested: \<open>traceFile\<close> is true iff the
  pointer \<^verbatim>\<open>t.traceFile\<close> is not nil. The connections and the wrapped runner are
  reached through the environment.
\<close>

record Tracer =
  traceFile :: bool
  alreadyWrittenTraces :: bool

text \<open>\<^verbatim>\<open>newTracer\<close> leaves \<^verbatim>\<open>alreadyWrittenTraces\<close> at its zero value.\<close>

definition newTracer :: "bool \<Rightarrow> Tracer" where
  "newTracer file = \<lparr>traceFile = file, alreadyWrittenTraces = False\<rparr>"

text \<open>
  \<^verbatim>\<open>vterrors.Aggregate\<close>: nil for an empty slice, the error itself for a slice of one,
  and for a longer slice a new error whose message is the messages of all of them,
  sorted (\<^verbatim>\<open>sort.Strings\<close>: bytewise, a proper prefix first) and joined by newlines.
\<close>

fun string_le :: "string \<Rightarrow> string \<Rightarrow> bool" where
  "string_le [] ys = True"
| "string_le (x # xs) [] = False"
| "string_le (x # xs) (y # ys) =
     ((of_char x :: nat) < of_char y \<or> (x = y \<and> string_le xs ys))"

fun insert_string :: "string \<Rightarrow> string list \<Rightarrow> string list" where
  "insert_string s [] = [s]"
| "insert_string s (x # xs) =
     (if string_le s x then s # x # xs else x # insert_string s xs)"

definition sort_Strings :: "string list \<Rightarrow> string list" where
  "sort_Strings xs = foldr insert_string xs []"

fun Join :: "string list \<Rightarrow> string \<Rightarrow> string" where
  "Join [] sep = []"
| "Join [x] sep = x"
| "Join (x # y # ys) sep = x @ sep @ Join (y # ys) sep"

definition Aggregate :: "error list \<Rightarrow> error option" where
  "Aggregate errs =
     (case errs of
        [] \<Rightarrow> None
      | [err] \<Rightarrow> Some err
      | _ \<Rightarrow> Some (Aggregated (Join (sort_Strings (map Error errs)) [CHR 0x0A])))"

text \<open>\<^verbatim>\<open>rs.Rows[0][0]\<close>: an index out of range panics.\<close>

definition first_cell :: "string list list \<Rightarrow> string outcome" where
  "first_cell rows =
     (case rows of
        [] \<Rightarrow> Panicked
      | r # _ \<Rightarrow> (case r of [] \<Rightarrow> Panicked | c # _ \<Rightarrow> Returned c))"

text \<open>\<^verbatim>\<open>%d\<close> of \<^verbatim>\<open>fmt.Sprintf\<close>: the decimal digits, after a minus sign for a negative
  number.\<close>

fun digits10 :: "nat \<Rightarrow> string" where
  "digits10 n =
     (if n < 10 then [''0123456789'' ! n]
      else digits10 (n div 10) @ [''0123456789'' ! (n mod 10)])"

definition Sprintf_d :: "int \<Rightarrow> string" where
  "Sprintf_d i = (if i < 0 then CHR ''-'' # digits10 (nat (- i)) else digits10 (nat i))"

text \<open>
  \<^verbatim>\<open>t.traceFile.Write(b)\<close>. A method of \<^verbatim>\<open>*os.File\<close> called on nil returns
  \<^verbatim>\<open>os.ErrInvalid\<close> and writes nothing. On a failed write the first \<open>n\<close> bytes may
  have reached the file.
\<close>

definition traceFile_Write :: "env \<Rightarrow> bool \<Rightarrow> event list \<Rightarrow> string \<Rightarrow> error option \<times> event list" where
  "traceFile_Write E file log b =
     (if \<not> file then (Some (External ''invalid argument''), log @ [FileWrite b []])
      else (case file_Write E log b of
              None \<Rightarrow> (None, log @ [FileWrite b b])
            | Some (n, err) \<Rightarrow> (Some err, log @ [FileWrite b (take n b)])))"

text \<open>\<^verbatim>\<open>json.Marshal(query.Query)\<close> with its error result, which is nil for a string.\<close>

definition Marshal_string :: "env \<Rightarrow> string \<Rightarrow> error + string" where
  "Marshal_string E s = Inr (json_Marshal E s)"

text \<open>The bytes \<^verbatim>\<open>trace\<close> collects in \<^verbatim>\<open>traceEntry\<close>.\<close>

definition traceEntry :: "bool \<Rightarrow> string \<Rightarrow> int \<Rightarrow> string \<Rightarrow> string" where
  \<open>traceEntry written queryJSON line prettyTrace =
     (if written then '','' else [])
     @ ''{"Query": '' @ queryJSON @ '', "LineNumber": "'' @ Sprintf_d line @ ''", "Trace": ''
     @ prettyTrace
     @ ''}''\<close>

definition trace :: "env \<Rightarrow> Tracer \<Rightarrow> data_Query \<Rightarrow> event list
                      \<Rightarrow> error option outcome \<times> Tracer \<times> event list" where
  "trace E t query log =
     (case Marshal_string E (Query query) of
        Inl err \<Rightarrow> (Returned (Some err), t, log)
      | Inr queryJSON \<Rightarrow>
          (let sql = ''vexplain trace '' @ Query query;
               log1 = log @ [VtExec sql]
           in case vt_ExecuteFetch E log sql of
                Inl err \<Rightarrow> (Returned (Some err), t, log1)
              | Inr rs \<Rightarrow>
                  (case first_cell rs of
                     Panicked \<Rightarrow> (Panicked, t, log1)
                   | Returned cell \<Rightarrow>
                       (case json_Indent E cell of
                          Inl err \<Rightarrow> (Returned (Some err), t, log1)
                        | Inr prettyTrace \<Rightarrow>
                            (let entry = traceEntry (alreadyWrittenTraces t) queryJSON
                                           (Line query) prettyTrace;
                                 t' = t\<lparr>alreadyWrittenTraces := True\<rparr>;
                                 (werr, log2) = traceFile_Write E (traceFile t') log1 entry
                             in (Returned werr, t', log2))))))"

definition Tracer_runQuery :: "env \<Rightarrow> Tracer \<Rightarrow> data_Query \<Rightarrow> bool \<Rightarrow> QueryRunConfig \<Rightarrow> event list
                      \<Rightarrow> error option outcome \<times> Tracer \<times> event list" where
  "Tracer_runQuery E t q expectErr cfg log =
     (if IsDMLStatement (ast cfg) \<and> traceFile t \<and> \<not> expectErr \<and> vitess cfg then
        (case trace E t q log of
           (Panicked, t1, log1) \<Rightarrow> (Panicked, t1, log1)
         | (Returned err, t1, log1) \<Rightarrow>
             (let errs = (case err of None \<Rightarrow> [] | Some e \<Rightarrow> [e])
              in if mysql cfg then
                   (case mysql_ExecuteFetch E log1 (Query q) of
                      Inl e \<Rightarrow> (Returned (Aggregate (errs @ [e])), t1, log1 @ [MySQLExec (Query q)])
                    | Inr _ \<Rightarrow> (Returned (Aggregate errs), t1, log1 @ [MySQLExec (Query q)]))
                 else (Returned (Aggregate errs), t1, log1)))
      else
        (let log1 = log @ [InnerCall q expectErr cfg]
         in case inner_runQuery E log q expectErr cfg of
              Panicked \<Rightarrow> (Panicked, t, log1)
            | Returned (Some err) \<Rightarrow> (Returned (Some err), t, log1)
            | Returned None \<Rightarrow>
                (if vitess cfg \<and> (isSelect (ast cfg) \<or> IsDMLStatement (ast cfg))
                 then trace E t q log1
                 else (Returned None, t, log1))))"

text \<open>What a log says: the statements sent to each backend, the calls of the wrapped
  runner, the bytes that reached the trace file, and the number of calls of \<^verbatim>\<open>Write\<close>.
  \<open>opt_list\<close> is the slice \<^verbatim>\<open>errs\<close> after appending an error that may be nil.\<close>

fun vt_execs :: "event list \<Rightarrow> string list" where
  "vt_execs [] = []"
| "vt_execs (VtExec s # es) = s # vt_execs es"
| "vt_execs (_ # es) = vt_execs es"

fun mysql_execs :: "event list \<Rightarrow> string list" where
  "mysql_execs [] = []"
| "mysql_execs (MySQLExec s # es) = s # mysql_execs es"
| "mysql_execs (_ # es) = mysql_execs es"

fun inner_calls :: "event list \<Rightarrow> (data_Query \<times> bool \<times> QueryRunConfig) list" where
  "inner_calls [] = []"
| "inner_calls (InnerCall q e c # es) = (q, e, c) # inner_calls es"
| "inner_calls (_ # es) = inner_calls es"

fun file_bytes :: "event list \<Rightarrow> string" where
  "file_bytes [] = []"
| "file_bytes (FileWrite b w # es) = w @ file_bytes es"
| "file_bytes (_ # es) = file_bytes es"

fun write_calls :: "event list \<Rightarrow> nat" where
  "write_calls [] = 0"
| "write_calls (FileWrite b w # es) = Suc (write_calls es)"
| "write_calls (_ # es) = write_calls es"

definition opt_list :: "'a option \<Rightarrow> 'a list" where
  "opt_list x = (case x of None \<Rightarrow> [] | Some e \<Rightarrow> [e])"

section \<open>The run loop (\<^verbatim>\<open>Tester\<close>)\<close>

text \<open>
  The fields of \<^verbatim>\<open>Tester\<close> the loop reads and writes. \<open>qr\<close> is the state of the
  query runner \<^verbatim>\<open>t.qr\<close>; the runner itself is a parameter of the functions below, of
  the type of \<^verbatim>\<open>QueryRunner.runQuery\<close> with the receiver's state and the log passed through.
\<close>

record 'r Tester =
  vexplain :: string
  expectedErrs :: bool
  state :: testerState
  qr :: 'r

type_synonym 'r QueryRunner =
  "'r \<Rightarrow> data_Query \<Rightarrow> bool \<Rightarrow> QueryRunConfig \<Rightarrow> event list
     \<Rightarrow> error option outcome \<times> 'r \<times> event list"

text \<open>\<^verbatim>\<open>NewTester\<close>, for the fields above: \<^verbatim>\<open>state: &testerState{}\<close>, the others zero,
  the runner as the factory built it.\<close>

definition NewTester :: "'r \<Rightarrow> 'r Tester" where
  "NewTester r = \<lparr>vexplain = [], expectedErrs = False, state = fresh_state, qr = r\<rparr>"

text \<open>\<^verbatim>\<open>strings.Split(s, " ")\<close>: the pieces between single spaces, one more than there
  are spaces.\<close>

fun Split :: "string \<Rightarrow> string list" where
  "Split [] = [[]]"
| "Split (c # cs) =
     (if c = CHR '' '' then [] # Split cs
      else (case Split cs of [] \<Rightarrow> [[c]] | w # ws \<Rightarrow> (c # w) # ws))"

text \<open>
  \<^verbatim>\<open>strconv.Atoi\<close> with a 64-bit \<^verbatim>\<open>int\<close>: an optional sign and at least one decimal
  digit, nothing else; a value outside the range of \<^verbatim>\<open>int\<close> is an error.
\<close>

definition is_digit :: "char \<Rightarrow> bool" where
  "is_digit c = (48 \<le> (of_char c :: nat) \<and> (of_char c :: nat) \<le> 57)"

definition Atoi :: "string \<Rightarrow> error + int" where
  "Atoi s =
     (let ds = (case s of [] \<Rightarrow> [] | c # r \<Rightarrow> if c = CHR ''-'' \<or> c = CHR ''+'' then r else s);
          neg = (case s of [] \<Rightarrow> False | c # r \<Rightarrow> c = CHR ''-'')
      in if ds = [] \<or> \<not> list_all is_digit ds
         then Inl (External (''strconv.Atoi: parsing '' @ s @ '': invalid syntax''))
         else (let n = foldl (\<lambda>a c. a * 10 + (int (of_char c) - 48)) 0 ds;
                   v = (if neg then - n else n)
               in if v < - (2 ^ 63) \<or> 2 ^ 63 - 1 < v
                  then Inl (External (''strconv.Atoi: parsing '' @ s @ '': value out of range''))
                  else Inr v))"

definition vitessOrMySQLOnly ::
  "string \<Rightarrow> (testerState \<Rightarrow> error option \<times> testerState)
     \<Rightarrow> (testerState \<Rightarrow> error option \<times> testerState)
     \<Rightarrow> testerState \<Rightarrow> error option \<times> testerState" where
  "vitessOrMySQLOnly query begin end st =
     (let strs = Split query
      in if length strs \<noteq> 2 then (Some (Errorf (''incorrect syntax in: '' @ query)), st)
         else if strs ! 1 = ''begin'' then begin st
         else if strs ! 1 = ''end'' then end st
         else (Some (Errorf (''incorrect syntax in: '' @ query)), st))"

text \<open>
  \<^verbatim>\<open>Tester.runQuery\<close>. It returns nothing; the outcome says whether it returned or the
  runner panicked.
\<close>

definition Tester_runQuery ::
  "env \<Rightarrow> 'r QueryRunner \<Rightarrow> 'r Tester \<Rightarrow> data_Query \<Rightarrow> event list
     \<Rightarrow> unit outcome \<times> 'r Tester \<times> event list" where
  "Tester_runQuery E run t q log =
     (case shouldSkip E (state t) log of
        (sk, st1, log1) \<Rightarrow>
          (let t1 = t\<lparr>state := st1\<rparr>
           in if sk then (Returned (), t1, log1)
              else
                (let log2 = log1 @ [AddTestCase (Query q) (Line q)]
                 in case Parse E (Query q) of
                      Inl err \<Rightarrow> (Returned (), t1, log2 @ [AddFailure err])
                    | Inr a \<Rightarrow>
                        (case shouldReference st1 of
                           (r, st2) \<Rightarrow>
                             (let cfg = \<lparr>ast = a, vitess = \<not> mysqlOnly st1,
                                        mysql = \<not> vitessOnly st1, cfg_reference = r\<rparr>;
                                  t2 = t1\<lparr>state := st2\<rparr>
                              in case run (qr t2) q (expectedErrs t2) cfg log2 of
                                   (Panicked, r', log3) \<Rightarrow> (Panicked, t2\<lparr>qr := r'\<rparr>, log3)
                                 | (Returned err, r', log3) \<Rightarrow>
                                     (let log4 = (case err of None \<Rightarrow> log3
                                                  | Some e \<Rightarrow> log3 @ [AddFailure e])
                                      in (Returned (),
                                          t2\<lparr>qr := r', expectedErrs := False\<rparr>,
                                          log4 @ [EndTestCase])))))))"

text \<open>
  \<^verbatim>\<open>Tester.waitAuthoritative\<close>; \<open>wait_for\<close> is its part after the \<^verbatim>\<open>switch\<close>. After
  the failure reported in the \<^verbatim>\<open>default\<close> case the function goes on with empty names.
\<close>

definition wait_for :: "env \<Rightarrow> string \<Rightarrow> string \<Rightarrow> event list \<Rightarrow> event list" where
  "wait_for E ksName tblName log =
     (let log1 = log @ [WaitAuthoritative ksName tblName]
      in case WaitForAuthoritative E log ksName tblName of
           None \<Rightarrow> log1
         | Some err \<Rightarrow>
             log1 @ [AddFailure (Wrapped (''failed to wait for authoritative schema for table ''
                                           @ tblName) err)])"

definition waitAuthoritative :: "env \<Rightarrow> string \<Rightarrow> event list \<Rightarrow> event list" where
  "waitAuthoritative E query log =
     (let strs = Split query
      in if length strs = 2 then
           (case findTable E log (strs ! 1) of
              Inl err \<Rightarrow> log @ [AddFailure err]
            | Inr ksName \<Rightarrow> wait_for E ksName (strs ! 1) log)
         else if length strs = 3 then wait_for E (strs ! 2) (strs ! 1) log
         else wait_for E [] []
                (log @ [AddFailure (Errorf
                   (''expected table name and keyspace for wait_authoritative in: '' @ query))]))"

text \<open>\<^verbatim>\<open>fmt.Errorf("%s not supported", q.Type.String())\<close>, with the name of the kind as
  this theory writes it.\<close>

fun CmdType_String :: "CmdType \<Rightarrow> string" where
  "CmdType_String typ_Query = ''Query''"
| "CmdType_String typ_Skip = ''Skip''"
| "CmdType_String typ_SkipIfBelowVersion = ''SkipIfBelowVersion''"
| "CmdType_String typ_Error = ''Error''"
| "CmdType_String typ_VExplain = ''VExplain''"
| "CmdType_String typ_WaitForAuthoritative = ''WaitForAuthoritative''"
| "CmdType_String typ_RemoveFile = ''RemoveFile''"
| "CmdType_String typ_VitessOnly = ''VitessOnly''"
| "CmdType_String typ_MysqlOnly = ''MysqlOnly''"
| "CmdType_String typ_Reference = ''Reference''"
| "CmdType_String typ_Comment = ''Comment''"
| "CmdType_String typ_EmptyLine = ''EmptyLine''"
| "CmdType_String typ_Unknown = ''Unknown''"

text \<open>
  One iteration of the \<^verbatim>\<open>for\<close> loop of \<^verbatim>\<open>Tester.Run\<close>. \<open>Returned None\<close>: the loop
  goes on with the next directive. \<open>Returned (Some err)\<close>: \<^verbatim>\<open>Run\<close> returns \<open>err\<close>.
  \<open>Panicked\<close>: the iteration panics. \<^verbatim>\<open>ExecuteFetch\<close> returns a nil result with a
  non-nil error, so \<^verbatim>\<open>result.Rows\<close> after a failed explain panics.
\<close>

definition Run_step ::
  "env \<Rightarrow> 'r QueryRunner \<Rightarrow> 'r Tester \<Rightarrow> data_Query \<Rightarrow> event list
     \<Rightarrow> error option outcome \<times> 'r Tester \<times> event list" where
  "Run_step E run t q log =
     (case Type q of
        typ_Skip \<Rightarrow> (Returned None, t\<lparr>state := skipNext (state t)\<rparr>, log)
      | typ_SkipIfBelowVersion \<Rightarrow>
          (let strs = Split (Query q)
           in if length strs \<noteq> 3 then
                (Returned None, t,
                 log @ [AddFailure (Errorf
                    (''incorrect syntax for typ.Q_SKIP_IF_BELOW_VERSION in: '' @ Query q))])
              else (case Atoi (strs ! 2) of
                      Inl err \<Rightarrow> (Returned None, t, log @ [AddFailure err])
                    | Inr v \<Rightarrow>
                        (Returned None, t\<lparr>state := skipIfBelow (strs ! 1) v (state t)\<rparr>, log)))
      | typ_Error \<Rightarrow> (Returned None, t\<lparr>expectedErrs := True\<rparr>, log)
      | typ_VExplain \<Rightarrow>
          (let strs = Split (Query q)
           in if length strs \<noteq> 2 then
                (Returned None, t,
                 log @ [AddFailure (Errorf (''incorrect syntax for typ.VExplain in: '' @ Query q))])
              else (Returned None, t\<lparr>vexplain := strs ! 1\<rparr>, log))
      | typ_WaitForAuthoritative \<Rightarrow>
          (Returned None, t, waitAuthoritative E (Query q) log)
      | typ_Query \<Rightarrow>
          (let run_it = (\<lambda>t' log'. case Tester_runQuery E run t' q log' of
                                     (Panicked, t'', log'') \<Rightarrow> (Panicked, t'', log'')
                                   | (Returned u, t'', log'') \<Rightarrow> (Returned None, t'', log''))
           in if vexplain t \<noteq> [] then
                (let sql = ''vexplain '' @ vexplain t @ '' '' @ Query q;
                     log1 = log @ [VtExec sql];
                     t1 = t\<lparr>vexplain := []\<rparr>
                 in case vt_ExecuteFetch E log sql of
                      Inl err \<Rightarrow> (Panicked, t1, log1 @ [AddFailure err])
                    | Inr rows \<Rightarrow>
                        (case first_cell rows of
                           Panicked \<Rightarrow> (Panicked, t1, log1)
                         | Returned cell \<Rightarrow>
                             run_it t1
                               (log1 @ [AddInfo (''VExplain Output:'' @ [CHR 0x0A] @ '' ''
                                                 @ cell @ [CHR 0x0A])])))
              else run_it t log)
      | typ_RemoveFile \<Rightarrow>
          (let path = TrimSpace E (Query q);
               log1 = log @ [Remove path]
           in case os_Remove E log path of
                Some err \<Rightarrow> (Returned (Some (Wrapped ''failed to remove file'' err)), t, log1)
              | None \<Rightarrow> (Returned None, t, log1))
      | typ_VitessOnly \<Rightarrow>
          (case vitessOrMySQLOnly (Query q) beginVitessOnly endVitessOnly (state t) of
             (Some err, st') \<Rightarrow> (Returned None, t\<lparr>state := st'\<rparr>, log @ [AddFailure err])
           | (None, st') \<Rightarrow> (Returned None, t\<lparr>state := st'\<rparr>, log))
      | typ_MysqlOnly \<Rightarrow>
          (case vitessOrMySQLOnly (Query q) beginMySQLOnly endMySQLOnly (state t) of
             (Some err, st') \<Rightarrow> (Returned None, t\<lparr>state := st'\<rparr>, log @ [AddFailure err])
           | (None, st') \<Rightarrow> (Returned None, t\<lparr>state := st'\<rparr>, log))
      | typ_Reference \<Rightarrow> (Returned None, t\<lparr>state := referenceNext (state t)\<rparr>, log)
      | _ \<Rightarrow> (Returned None, t,
               log @ [AddFailure (Errorf (CmdType_String (Type q) @ '' not supported''))]))"

text \<open>
  The \<^verbatim>\<open>for\<close> loop of \<^verbatim>\<open>Tester.Run\<close> over the loaded directives. \<open>Returned None\<close>: the
  loop reached the end of the stream. Otherwise the result is that of the iteration
  that left the loop, and the directives after it are not looked at.
\<close>

fun Run_loop ::
  "env \<Rightarrow> 'r QueryRunner \<Rightarrow> 'r Tester \<Rightarrow> data_Query list \<Rightarrow> event list
     \<Rightarrow> error option outcome \<times> 'r Tester \<times> event list" where
  "Run_loop E run t [] log = (Returned None, t, log)"
| "Run_loop E run t (q # queries) log =
     (case Run_step E run t q log of
        (Returned None, t', log') \<Rightarrow> Run_loop E run t' queries log'
      | (Returned (Some err), t', log') \<Rightarrow> (Returned (Some err), t', log')
      | (Panicked, t', log') \<Rightarrow> (Panicked, t', log'))"

section \<open>Sample environments and inputs\<close>

text \<open>
  Concrete collaborators for evaluating the functions above. In \<open>sample_env\<close> every
  backend call succeeds, the explain reply is the single cell \<^verbatim>\<open>{}\<close>, the installed
  binaries are at version 57000, and the parser knows a statement by its first six
  characters.
\<close>

definition sample_Marshal :: "string \<Rightarrow> string" where
  \<open>sample_Marshal s = ''"'' @ s @ ''"''\<close>

definition sample_Parse :: "string \<Rightarrow> error + Statement" where
  "sample_Parse s =
     (if s = [] then Inl (External ''syntax error at position 1'')
      else Inr (Statement (take 6 s = ''insert'' \<or> take 6 s = ''update'' \<or> take 6 s = ''delete'')
                          (take 6 s = ''select'')))"

definition sample_env :: env where
  "sample_env =
     \<lparr>vt_ExecuteFetch = (\<lambda>log sql. Inr [[''{}'']]),
      mysql_ExecuteFetch = (\<lambda>log sql. Inr []),
      inner_runQuery = (\<lambda>log q e cfg. Returned None),
      file_Write = (\<lambda>log b. None),
      json_Marshal = sample_Marshal,
      json_Indent = Inr,
      BinaryIsAtLeastAtVersion = (\<lambda>log version binary. version \<le> 57000),
      os_Remove = (\<lambda>log path. None),
      WaitForAuthoritative = (\<lambda>log ks tbl. None),
      Parse = sample_Parse,
      findTable = (\<lambda>log tbl. Inr ''ks''),
      TrimSpace = (\<lambda>s. s)\<rparr>"

text \<open>The first write to the trace file fails with nothing written, later ones succeed.\<close>

definition first_write_fails_env :: env where
  "first_write_fails_env =
     sample_env\<lparr>file_Write :=
       (\<lambda>log b. if write_calls log = 0 then Some (0, External ''no space left on device'')
                 else None)\<rparr>"

text \<open>Both backends reject every statement.\<close>

definition failing_backends_env :: env where
  "failing_backends_env =
     sample_env\<lparr>vt_ExecuteFetch := (\<lambda>log sql. Inl (External ''target: table not found'')),
                mysql_ExecuteFetch := (\<lambda>log sql. Inl (External ''reference: table not found''))\<rparr>"

text \<open>The target rejects every statement, the reference accepts it.\<close>

definition target_fails_env :: env where
  "target_fails_env =
     sample_env\<lparr>vt_ExecuteFetch := (\<lambda>log sql. Inl (External ''target: table not found''))\<rparr>"

text \<open>The target answers every statement with a result that has no rows.\<close>

definition rowless_env :: env where
  "rowless_env = sample_env\<lparr>vt_ExecuteFetch := (\<lambda>log sql. Inr [])\<rparr>"

text \<open>The wrapped runner reports a mismatch.\<close>

definition inner_fails_env :: env where
  "inner_fails_env =
     sample_env\<lparr>inner_runQuery := (\<lambda>log q e cfg. Returned (Some (External ''results differ'')))\<rparr>"

text \<open>\<^verbatim>\<open>os.Remove\<close> fails.\<close>

definition remove_fails_env :: env where
  "remove_fails_env =
     sample_env\<lparr>os_Remove := (\<lambda>log path. Some (External ''no such file or directory''))\<rparr>"

text \<open>Waiting for an authoritative schema fails.\<close>

definition wait_fails_env :: env where
  "wait_fails_env =
     sample_env\<lparr>WaitForAuthoritative := (\<lambda>log ks tbl. Some (External ''timed out''))\<rparr>"

definition directive :: "CmdType \<Rightarrow> string \<Rightarrow> int \<Rightarrow> data_Query" where
  "directive k text line = \<lparr>Query = text, Line = line, Type = k\<rparr>"

definition dml_cfg :: QueryRunConfig where
  "dml_cfg = \<lparr>ast = Statement True False, vitess = True, mysql = True, cfg_reference = False\<rparr>"

definition select_cfg :: QueryRunConfig where
  "select_cfg = \<lparr>ast = Statement False True, vitess = True, mysql = True, cfg_reference = False\<rparr>"

text \<open>The invariant of the two scope flags.\<close>

definition scopes_exclusive :: "testerState \<Rightarrow> bool" where
  "scopes_exclusive st = (\<not> (vitessOnly st \<and> mysqlOnly st))"

section \<open>Properties of the mode state\<close>

text \<open>
  Claim C5. \<^verbatim>\<open>shouldSkip\<close> looks at \<open>skip\<close> first: when it is set, it is cleared, the
  verdict is true, and nothing else happens (no oracle call, the gate stays). Otherwise,
  when a version gate is recorded (\<open>skipBinary\<close> is not empty), the oracle is asked
  exactly once, for the recorded version and binary, the gate is cleared whatever the
  oracle says, and the verdict is true iff the oracle says the requirement is not met; a
  second call right after answers false without asking again. With no flag set the
  verdict is false and state and log are unchanged.
\<close>

theorem shouldSkip_spec:
  "(skip st \<longrightarrow> shouldSkip E st log = (True, st\<lparr>skip := False\<rparr>, log))
   \<and> (\<not> skip st \<and> skipBinary st \<noteq> [] \<longrightarrow>
        (\<exists>st' log'. shouldSkip E st log =
             (\<not> BinaryIsAtLeastAtVersion E log (skipVersion st) (skipBinary st), st', log')
           \<and> log' = log @ [VersionCheck (skipVersion st) (skipBinary st)]
           \<and> skipBinary st' = [] \<and> \<not> skip st'
           \<and> vitessOnly st' = vitessOnly st \<and> mysqlOnly st' = mysqlOnly st
           \<and> reference st' = reference st
           \<and> shouldSkip E st' log' = (False, st', log')))
   \<and> (\<not> skip st \<and> skipBinary st = [] \<longrightarrow> shouldSkip E st log = (False, st, log))"
  by (simp add: shouldSkip_def)

text \<open>With the flag, with a gate for a version the installed binary does not reach, right
  after that gate was evaluated, and with nothing set.\<close>

theorem shouldSkip_spec_witness:
  "shouldSkip sample_env (fresh_state\<lparr>skip := True\<rparr>) [] = (True, fresh_state, [])
   \<and> shouldSkip sample_env (skipIfBelow ''mysqld'' 80000 fresh_state) []
       = (True, fresh_state\<lparr>skipVersion := 80000\<rparr>, [VersionCheck 80000 ''mysqld''])
   \<and> shouldSkip sample_env (fresh_state\<lparr>skipVersion := 80000\<rparr>) [VersionCheck 80000 ''mysqld'']
       = (False, fresh_state\<lparr>skipVersion := 80000\<rparr>, [VersionCheck 80000 ''mysqld''])
   \<and> shouldSkip sample_env fresh_state [] = (False, fresh_state, [])"
  using shouldSkip_spec [of "fresh_state\<lparr>skip := True\<rparr>" sample_env "[]"]
        shouldSkip_spec [of "skipIfBelow ''mysqld'' 80000 fresh_state" sample_env "[]"]
        shouldSkip_spec [of fresh_state sample_env "[]"]
  by (simp add: fresh_state_def skipIfBelow_def sample_env_def shouldSkip_def)

text \<open>
  Claim C8. A begin of a scope that is already open, an end of a scope that is not
  open, and a begin of one scope while the other is open each return an error and the
  state they return is the state they were given; more generally no call of the four
  operations that returns an error changes the state.
\<close>

theorem scope_errors_keep_state:
  "(vitessOnly st \<longrightarrow> (\<exists>e. beginVitessOnly st = (Some e, st)))
   \<and> (mysqlOnly st \<longrightarrow> (\<exists>e. beginMySQLOnly st = (Some e, st)))
   \<and> (\<not> vitessOnly st \<longrightarrow> (\<exists>e. endVitessOnly st = (Some e, st)))
   \<and> (\<not> mysqlOnly st \<longrightarrow> (\<exists>e. endMySQLOnly st = (Some e, st)))
   \<and> (mysqlOnly st \<longrightarrow> (\<exists>e. beginVitessOnly st = (Some e, st)))
   \<and> (vitessOnly st \<longrightarrow> (\<exists>e. beginMySQLOnly st = (Some e, st)))
   \<and> (\<forall>op \<in> {beginVitessOnly, endVitessOnly, beginMySQLOnly, endMySQLOnly}.
         fst (op st) \<noteq> None \<longrightarrow> snd (op st) = st)"
  by (simp add: beginVitessOnly_def beginMySQLOnly_def endVitessOnly_def endMySQLOnly_def)

text \<open>The six error cases, inside a \<^verbatim>\<open>vitess_only\<close> scope and inside a \<^verbatim>\<open>mysql_only\<close>
  scope.\<close>

theorem scope_errors_keep_state_witness:
  "beginVitessOnly (fresh_state\<lparr>vitessOnly := True\<rparr>)
     = (Some (Errorf ''nested vitess_only begin''), fresh_state\<lparr>vitessOnly := True\<rparr>)
   \<and> beginMySQLOnly (fresh_state\<lparr>vitessOnly := True\<rparr>)
     = (Some (Errorf ''cannot begin mysql_only within vitess_only''), fresh_state\<lparr>vitessOnly := True\<rparr>)
   \<and> endMySQLOnly (fresh_state\<lparr>vitessOnly := True\<rparr>)
     = (Some (Errorf ''no vitess_only to end''), fresh_state\<lparr>vitessOnly := True\<rparr>)
   \<and> beginMySQLOnly (fresh_state\<lparr>mysqlOnly := True\<rparr>)
     = (Some (Errorf ''nested mysql_only begin''), fresh_state\<lparr>mysqlOnly := True\<rparr>)
   \<and> beginVitessOnly (fresh_state\<lparr>mysqlOnly := True\<rparr>)
     = (Some (Errorf ''cannot begin vitess_only within mysql_only''), fresh_state\<lparr>mysqlOnly := True\<rparr>)
   \<and> endVitessOnly (fresh_state\<lparr>mysqlOnly := True\<rparr>)
     = (Some (Errorf ''no vitess_only to end''), fresh_state\<lparr>mysqlOnly := True\<rparr>)"
  using scope_errors_keep_state [of "fresh_state\<lparr>vitessOnly := True\<rparr>"]
        scope_errors_keep_state [of "fresh_state\<lparr>mysqlOnly := True\<rparr>"]
  by (simp add: fresh_state_def beginVitessOnly_def beginMySQLOnly_def endVitessOnly_def
        endMySQLOnly_def)

text \<open>
  Claim C9. \<^verbatim>\<open>skipNext\<close> returns the state it was given when \<open>vitessOnly\<close>,
  \<open>mysqlOnly\<close> or \<open>reference\<close> is set, and otherwise a state that differs from it in
  \<open>skip\<close> only, which is true; \<^verbatim>\<open>referenceNext\<close> returns the state it was given when
  \<open>vitessOnly\<close>, \<open>mysqlOnly\<close> or \<open>skip\<close> is set, and otherwise a state that differs
  from it in \<open>reference\<close> only, which is true.
\<close>

theorem skipNext_referenceNext_frame:
  "(vitessOnly st \<or> mysqlOnly st \<or> reference st \<longrightarrow> skipNext st = st)
   \<and> (\<not> (vitessOnly st \<or> mysqlOnly st \<or> reference st) \<longrightarrow>
        skip (skipNext st) \<and> skipBinary (skipNext st) = skipBinary st
        \<and> skipVersion (skipNext st) = skipVersion st
        \<and> vitessOnly (skipNext st) = vitessOnly st \<and> mysqlOnly (skipNext st) = mysqlOnly st
        \<and> reference (skipNext st) = reference st)
   \<and> (vitessOnly st \<or> mysqlOnly st \<or> skip st \<longrightarrow> referenceNext st = st)
   \<and> (\<not> (vitessOnly st \<or> mysqlOnly st \<or> skip st) \<longrightarrow>
        reference (referenceNext st) \<and> skipBinary (referenceNext st) = skipBinary st
        \<and> skipVersion (referenceNext st) = skipVersion st
        \<and> vitessOnly (referenceNext st) = vitessOnly st
        \<and> mysqlOnly (referenceNext st) = mysqlOnly st
        \<and> skip (referenceNext st) = skip st)"
  by (simp add: skipNext_def referenceNext_def)

text \<open>Both operations inside a scope, after the other marker, and on the fresh state.\<close>

theorem skipNext_referenceNext_frame_witness:
  "skipNext (fresh_state\<lparr>vitessOnly := True\<rparr>) = fresh_state\<lparr>vitessOnly := True\<rparr>
   \<and> skipNext (fresh_state\<lparr>reference := True\<rparr>) = fresh_state\<lparr>reference := True\<rparr>
   \<and> skipNext fresh_state = fresh_state\<lparr>skip := True\<rparr>
   \<and> referenceNext (fresh_state\<lparr>mysqlOnly := True\<rparr>) = fresh_state\<lparr>mysqlOnly := True\<rparr>
   \<and> referenceNext (fresh_state\<lparr>skip := True\<rparr>) = fresh_state\<lparr>skip := True\<rparr>
   \<and> referenceNext fresh_state = fresh_state\<lparr>reference := True\<rparr>"
  using skipNext_referenceNext_frame [of "fresh_state\<lparr>vitessOnly := True\<rparr>"]
        skipNext_referenceNext_frame [of "fresh_state\<lparr>reference := True\<rparr>"]
        skipNext_referenceNext_frame [of "fresh_state\<lparr>mysqlOnly := True\<rparr>"]
        skipNext_referenceNext_frame [of "fresh_state\<lparr>skip := True\<rparr>"]
        skipNext_referenceNext_frame [of fresh_state]
  by (simp add: fresh_state_def skipNext_def referenceNext_def)

section \<open>Properties of the trace recorder\<close>

lemma trace_events:
  "\<exists>out t' new. trace E t q log = (out, t', log @ new)
       \<and> vt_execs new = [''vexplain trace '' @ Query q]
       \<and> inner_calls new = [] \<and> mysql_execs new = []
       \<and> (out = Panicked \<longleftrightarrow>
            (\<exists>rs. vt_ExecuteFetch E log (''vexplain trace '' @ Query q) = Inr rs
                  \<and> first_cell rs = Panicked))"
  by (auto simp: trace_def Marshal_string_def traceFile_Write_def Let_def
           split: sum.splits outcome.splits option.splits prod.splits)

lemma vt_execs_snoc: "vt_execs (xs @ [MySQLExec s]) = vt_execs xs"
  by (induction xs rule: vt_execs.induct) simp_all

lemma inner_calls_snoc: "inner_calls (xs @ [MySQLExec s]) = inner_calls xs"
  by (induction xs rule: inner_calls.induct) simp_all

lemma mysql_execs_snoc: "mysql_execs (xs @ [MySQLExec s]) = mysql_execs xs @ [s]"
  by (induction xs rule: mysql_execs.induct) simp_all

text \<open>
  Claim C1, as amended. A data-modifying statement that is dispatched while the trace
  file is open, no error is expected and the target is in scope: the only statement
  the call sends to the target is the explain-trace variant of the statement, once, and
  the wrapped runner is not called. The call returns unless the target answers the
  explain with a result that has no first cell. When it returns, the statement was sent
  to the reference backend once if the reference is in scope and not at all otherwise,
  and the result is what \<^verbatim>\<open>vterrors.Aggregate\<close> makes of the error of the trace capture
  and the error of the reference backend: nil when neither failed, the error itself
  when one of them failed, and when both failed one new error whose message is the two
  messages, the smaller first, joined by a newline.
\<close>

theorem dml_runs_once_while_tracing:
  assumes "IsDMLStatement (ast cfg)" and "traceFile t" and "\<not> expectErr" and "vitess cfg"
  shows "\<exists>out t' new. Tracer_runQuery E t q expectErr cfg log = (out, t', log @ new)
           \<and> vt_execs new = [''vexplain trace '' @ Query q]
           \<and> inner_calls new = []
           \<and> (out = Panicked \<longleftrightarrow>
                (\<exists>rs. vt_ExecuteFetch E log (''vexplain trace '' @ Query q) = Inr rs
                      \<and> first_cell rs = Panicked))
           \<and> (out \<noteq> Panicked \<longrightarrow>
                mysql_execs new = (if mysql cfg then [Query q] else [])
                \<and> (\<exists>terr log1 merr.
                      trace E t q log = (Returned terr, t', log1)
                      \<and> merr = (if mysql cfg
                                 then (case mysql_ExecuteFetch E log1 (Query q) of
                                         Inl e \<Rightarrow> Some e | Inr rs \<Rightarrow> None)
                                 else None)
                      \<and> out = Returned
                           (case terr of
                              None \<Rightarrow> merr
                            | Some e1 \<Rightarrow>
                                (case merr of
                                   None \<Rightarrow> Some e1
                                 | Some e2 \<Rightarrow>
                                     Some (Aggregated
                                       (if string_le (Error e1) (Error e2)
                                        then Error e1 @ [CHR 0x0A] @ Error e2
                                        else Error e2 @ [CHR 0x0A] @ Error e1))))))"
proof -
  obtain tout t1 new1 where tr: "trace E t q log = (tout, t1, log @ new1)"
    and vt: "vt_execs new1 = [''vexplain trace '' @ Query q]"
    and inn: "inner_calls new1 = []" and my: "mysql_execs new1 = []"
    and pan: "tout = Panicked \<longleftrightarrow>
            (\<exists>rs. vt_ExecuteFetch E log (''vexplain trace '' @ Query q) = Inr rs
                  \<and> first_cell rs = Panicked)"
    using trace_events [of E t q log] by blast
  show ?thesis
  proof (cases tout)
    case Panicked
    with assms tr vt inn pan show ?thesis
      by (simp add: Tracer_runQuery_def)
  next
    case (Returned terr)
    show ?thesis
    proof (cases "mysql cfg")
      case False
      with assms tr vt inn my pan Returned show ?thesis
        by (simp add: Tracer_runQuery_def Aggregate_def split: option.splits)
    next
      case True
      define merr where "merr = (case mysql_ExecuteFetch E (log @ new1) (Query q) of
                                         Inl e \<Rightarrow> Some e | Inr rs \<Rightarrow> None)"
      have run: "Tracer_runQuery E t q expectErr cfg log
                 = (Returned
                           (case terr of
                              None \<Rightarrow> merr
                            | Some e1 \<Rightarrow>
                                (case merr of
                                   None \<Rightarrow> Some e1
                                 | Some e2 \<Rightarrow>
                                     Some (Aggregated
                                       (if string_le (Error e1) (Error e2)
                                        then Error e1 @ [CHR 0x0A] @ Error e2
                                        else Error e2 @ [CHR 0x0A] @ Error e1)))),
                    t1, log @ (new1 @ [MySQLExec (Query q)]))"
        using assms tr Returned True
        by (simp add: Tracer_runQuery_def Aggregate_def merr_def sort_Strings_def
                 split: option.splits sum.splits)
      have "vt_execs (new1 @ [MySQLExec (Query q)]) = [''vexplain trace '' @ Query q]"
        using vt by (simp add: vt_execs_snoc)
      moreover have "inner_calls (new1 @ [MySQLExec (Query q)]) = []"
        using inn by (simp add: inner_calls_snoc)
      moreover have "mysql_execs (new1 @ [MySQLExec (Query q)]) = [Query q]"
        using my by (simp add: mysql_execs_snoc)
      ultimately show ?thesis
        using run True tr Returned pan merr_def by auto
    qed
  qed
qed

text \<open>An insert while tracing: both backends accept it (the result is nil and one entry is
  written), the target rejects it (the result is the target's error itself), both
  reject it (one error with both messages, sorted). The reference gets the statement
  once each time and the wrapped runner is never called.\<close>

theorem dml_runs_once_while_tracing_witness:
  \<open>IsDMLStatement (ast dml_cfg) \<and> traceFile (newTracer True) \<and> vitess dml_cfg
   \<and> Tracer_runQuery sample_env (newTracer True)
         (directive typ_Query ''insert into t values (1)'' 7) False dml_cfg []
       = (Returned None, \<lparr>traceFile = True, alreadyWrittenTraces = True\<rparr>,
          [VtExec ''vexplain trace insert into t values (1)'',
           FileWrite ''{"Query": "insert into t values (1)", "LineNumber": "7", "Trace": {}}''
                     ''{"Query": "insert into t values (1)", "LineNumber": "7", "Trace": {}}'',
           MySQLExec ''insert into t values (1)''])
   \<and> Tracer_runQuery target_fails_env (newTracer True)
         (directive typ_Query ''insert into t values (1)'' 7) False dml_cfg []
       = (Returned (Some (External ''target: table not found'')), newTracer True,
          [VtExec ''vexplain trace insert into t values (1)'',
           MySQLExec ''insert into t values (1)''])
   \<and> Tracer_runQuery failing_backends_env (newTracer True)
         (directive typ_Query ''insert into t values (1)'' 7) False dml_cfg []
       = (Returned (Some (Aggregated
            (''reference: table not found'' @ [CHR 0x0A] @ ''target: table not found''))),
          newTracer True,
          [VtExec ''vexplain trace insert into t values (1)'',
           MySQLExec ''insert into t values (1)''])\<close>
  using dml_runs_once_while_tracing [of dml_cfg "newTracer True" False sample_env
          "directive typ_Query ''insert into t values (1)'' 7" "[]"]
        dml_runs_once_while_tracing [of dml_cfg "newTracer True" False target_fails_env
          "directive typ_Query ''insert into t values (1)'' 7" "[]"]
        dml_runs_once_while_tracing [of dml_cfg "newTracer True" False failing_backends_env
          "directive typ_Query ''insert into t values (1)'' 7" "[]"]
  by (simp add: dml_cfg_def newTracer_def directive_def failing_backends_env_def
        target_fails_env_def sample_env_def Tracer_runQuery_def trace_def Marshal_string_def
        Aggregate_def sort_Strings_def traceFile_Write_def first_cell_def traceEntry_def
        sample_Marshal_def Sprintf_d_def Let_def)

text \<open>
  Claim C1 as stated fails: when the target answers the explain with a result that has
  no rows, \<^verbatim>\<open>rs.Rows[0][0]\<close> panics; the statement is not sent to the reference backend
  although the reference is in scope, and no error is returned.
\<close>

theorem rowless_explain_reply_panics:
  "Tracer_runQuery rowless_env (newTracer True)
      (directive typ_Query ''insert into t values (1)'' 7) False dml_cfg []
     = (Panicked, newTracer True, [VtExec ''vexplain trace insert into t values (1)''])
   \<and> IsDMLStatement (ast dml_cfg) \<and> traceFile (newTracer True) \<and> vitess dml_cfg
   \<and> mysql dml_cfg"
  by (simp add: Tracer_runQuery_def trace_def Marshal_string_def rowless_env_def
        sample_env_def first_cell_def newTracer_def directive_def dml_cfg_def Let_def)

text \<open>
  Claim C7. A query that does not take the interception path: the wrapped runner is
  called first, once, with the arguments of the call. When it returns no error, the
  statement is a selection or data-modifying and the target is in scope, the result
  is that of the trace capture run after it; in every other case the result is the
  wrapped runner's, the recorder's state is unchanged and nothing else happens (no
  statement is sent, nothing is written).
\<close>

theorem delegation_then_trace:
  assumes "\<not> (IsDMLStatement (ast cfg) \<and> traceFile t \<and> \<not> expectErr \<and> vitess cfg)"
  shows "\<exists>out t' new. Tracer_runQuery E t q expectErr cfg log
                          = (out, t', log @ InnerCall q expectErr cfg # new)
           \<and> inner_calls new = []
           \<and> (if inner_runQuery E log q expectErr cfg = Returned None
                  \<and> (isSelect (ast cfg) \<or> IsDMLStatement (ast cfg)) \<and> vitess cfg
               then (out, t', log @ InnerCall q expectErr cfg # new)
                      = trace E t q (log @ [InnerCall q expectErr cfg])
                    \<and> vt_execs new = [''vexplain trace '' @ Query q]
               else out = inner_runQuery E log q expectErr cfg \<and> t' = t \<and> new = [])"
proof (cases "inner_runQuery E log q expectErr cfg = Returned None
                  \<and> (isSelect (ast cfg) \<or> IsDMLStatement (ast cfg)) \<and> vitess cfg")
  case True
  obtain out t' new where
    tr: "trace E t q (log @ [InnerCall q expectErr cfg])
           = (out, t', (log @ [InnerCall q expectErr cfg]) @ new)"
    and ev: "vt_execs new = [''vexplain trace '' @ Query q]" "inner_calls new = []"
    using trace_events [of E t q "log @ [InnerCall q expectErr cfg]"] by blast
  have "Tracer_runQuery E t q expectErr cfg log
          = trace E t q (log @ [InnerCall q expectErr cfg])"
    using assms True by (auto simp: Tracer_runQuery_def Let_def)
  with tr ev True show ?thesis by auto
next
  case False
  then have "Tracer_runQuery E t q expectErr cfg log
          = (inner_runQuery E log q expectErr cfg, t, log @ [InnerCall q expectErr cfg])"
    using assms
    by (cases "inner_runQuery E log q expectErr cfg")
       (auto simp: Tracer_runQuery_def Let_def split: option.splits)
  with False show ?thesis by auto
qed

text \<open>A select that the wrapped runner accepts is traced afterwards; one it rejects is
  not.\<close>

theorem delegation_then_trace_witness:
  "\<not> (IsDMLStatement (ast select_cfg) \<and> traceFile (newTracer True) \<and> \<not> False
        \<and> vitess select_cfg)
   \<and> (\<exists>entry.
         Tracer_runQuery sample_env (newTracer True)
            (directive typ_Query ''select 1'' 3) False select_cfg []
          = (Returned None, \<lparr>traceFile = True, alreadyWrittenTraces = True\<rparr>,
             [InnerCall (directive typ_Query ''select 1'' 3) False select_cfg,
              VtExec ''vexplain trace select 1'', FileWrite entry entry]))
   \<and> Tracer_runQuery inner_fails_env (newTracer True) (directive typ_Query ''select 1'' 3) False select_cfg []
          = (Returned (Some (External ''results differ'')), newTracer True,
             [InnerCall (directive typ_Query ''select 1'' 3) False select_cfg])"
  using delegation_then_trace [of select_cfg "newTracer True" False sample_env
          "directive typ_Query ''select 1'' 3" "[]"]
        delegation_then_trace [of select_cfg "newTracer True" False inner_fails_env
          "directive typ_Query ''select 1'' 3" "[]"]
  by (simp add: select_cfg_def newTracer_def directive_def inner_fails_env_def
        sample_env_def Tracer_runQuery_def trace_def Marshal_string_def traceFile_Write_def
        first_cell_def Let_def)


lemma write_calls_snoc_FileWrite: "write_calls (xs @ [FileWrite b w]) = Suc (write_calls xs)"
  by (induction xs rule: write_calls.induct) simp_all

lemma trace_cases:
  "trace E t q log = (out, t', log') \<Longrightarrow>
     (t' = t \<and> log' = log @ [VtExec (''vexplain trace '' @ Query q)] \<and> out \<noteq> Returned None)
   \<or> (\<exists>rs cell pretty entry werr w.
         vt_ExecuteFetch E log (''vexplain trace '' @ Query q) = Inr rs
       \<and> first_cell rs = Returned cell \<and> json_Indent E cell = Inr pretty
       \<and> entry = traceEntry (alreadyWrittenTraces t) (json_Marshal E (Query q)) (Line q) pretty
       \<and> t' = t\<lparr>alreadyWrittenTraces := True\<rparr>
       \<and> log' = log @ [VtExec (''vexplain trace '' @ Query q), FileWrite entry w]
       \<and> out = Returned werr \<and> (werr = None \<longrightarrow> w = entry \<and> traceFile t))"
  by (auto simp: trace_def Marshal_string_def traceFile_Write_def Let_def
           split: sum.splits outcome.splits option.splits prod.splits if_splits)



text \<open>What a successful capture does: one explain on the target, one write, and the bytes
  written are the entry built from the first cell, with a leading comma iff the flag
  was set.\<close>

lemma trace_success_entry:
  assumes "trace E t q log = (Returned None, t', log')"
  shows "\<exists>rs cell pretty.
           vt_ExecuteFetch E log (''vexplain trace '' @ Query q) = Inr rs
           \<and> first_cell rs = Returned cell \<and> json_Indent E cell = Inr pretty
           \<and> file_bytes (drop (length log) log')
               = traceEntry (alreadyWrittenTraces t) (json_Marshal E (Query q)) (Line q) pretty
           \<and> vt_execs (drop (length log) log') = [''vexplain trace '' @ Query q]
           \<and> write_calls (drop (length log) log') = 1"
  using trace_cases [OF assms] by auto

text \<open>
  Claim C6, at the input where the code departs from it. The first capture of a new
  recorder fails in \<^verbatim>\<open>Write\<close> with no byte written; the second capture succeeds. The
  trace file then holds the second entry only, and that entry is preceded by a comma
  although no entry was written before it.
\<close>

theorem comma_after_failed_first_write:
  \<open>trace first_write_fails_env (newTracer True)
       (directive typ_Query ''insert into t values (1)'' 10) []
     = (Returned (Some (External ''no space left on device'')),
        \<lparr>traceFile = True, alreadyWrittenTraces = True\<rparr>,
        [VtExec ''vexplain trace insert into t values (1)'',
         FileWrite ''{"Query": "insert into t values (1)", "LineNumber": "10", "Trace": {}}'' []])
   \<and> file_bytes
         [VtExec ''vexplain trace insert into t values (1)'',
          FileWrite ''{"Query": "insert into t values (1)", "LineNumber": "10", "Trace": {}}'' []]
       = []
   \<and> (\<exists>log2.
         trace first_write_fails_env \<lparr>traceFile = True, alreadyWrittenTraces = True\<rparr>
           (directive typ_Query ''insert into t values (2)'' 11)
           [VtExec ''vexplain trace insert into t values (1)'',
            FileWrite ''{"Query": "insert into t values (1)", "LineNumber": "10", "Trace": {}}'' []]
         = (Returned None, \<lparr>traceFile = True, alreadyWrittenTraces = True\<rparr>, log2)
         \<and> file_bytes log2
             = '',{"Query": "insert into t values (2)", "LineNumber": "11", "Trace": {}}'')\<close>
  by (simp add: newTracer_def directive_def first_write_fails_env_def
        sample_env_def trace_def Marshal_string_def traceFile_Write_def
        first_cell_def traceEntry_def sample_Marshal_def Sprintf_d_def Let_def)

section \<open>Properties of the run loop\<close>

lemma shouldSkip_scopes:
  "shouldSkip E st log = (sk, st', log') \<Longrightarrow>
     vitessOnly st' = vitessOnly st \<and> mysqlOnly st' = mysqlOnly st"
  by (auto simp: shouldSkip_def Let_def split: if_splits)

lemma shouldReference_scopes:
  "shouldReference st = (r, st') \<Longrightarrow>
     vitessOnly st' = vitessOnly st \<and> mysqlOnly st' = mysqlOnly st"
  by (auto simp: shouldReference_def split: if_splits)

lemma Tester_runQuery_scopes:
  assumes "Tester_runQuery E run t q log = (out, t', log')"
  shows "vitessOnly (state t') = vitessOnly (state t) \<and> mysqlOnly (state t') = mysqlOnly (state t)"
proof -
  obtain sk st1 log1 where sk: "shouldSkip E (state t) log = (sk, st1, log1)"
    by (metis prod_cases3)
  obtain r st2 where r: "shouldReference st1 = (r, st2)"
    by (metis surj_pair)
  from assms sk r have "state t' = st1 \<or> state t' = st2"
    by (auto simp: Tester_runQuery_def Let_def
             split: if_splits sum.splits prod.splits outcome.splits option.splits)
  with shouldSkip_scopes [OF sk] shouldReference_scopes [OF r] show ?thesis
    by auto
qed

lemma vitessOnly_directive_exclusive:
  "scopes_exclusive st \<Longrightarrow>
     scopes_exclusive (snd (vitessOrMySQLOnly query beginVitessOnly endVitessOnly st))"
  by (auto simp: scopes_exclusive_def vitessOrMySQLOnly_def Let_def
                 beginVitessOnly_def endVitessOnly_def)

lemma mysqlOnly_directive_exclusive:
  "scopes_exclusive st \<Longrightarrow>
     scopes_exclusive (snd (vitessOrMySQLOnly query beginMySQLOnly endMySQLOnly st))"
  by (auto simp: scopes_exclusive_def vitessOrMySQLOnly_def Let_def
                 beginMySQLOnly_def endMySQLOnly_def)

lemma Run_step_exclusive:
  assumes inv: "scopes_exclusive (state t)"
      and step: "Run_step E run t q log = (out, t', log')"
  shows "scopes_exclusive (state t')"
proof (cases "Type q")
  case typ_Query
  obtain o1 t1 l1 where a: "Tester_runQuery E run t q log = (o1, t1, l1)"
    by (metis prod_cases3)
  show ?thesis
  proof (cases "vexplain t = []")
    case True
    with step typ_Query a have "t' = t1"
      by (auto simp: Run_step_def Let_def split: outcome.splits)
    with Tester_runQuery_scopes [OF a] inv show ?thesis
      by (simp add: scopes_exclusive_def)
  next
    case False
    let ?t1 = "t\<lparr>vexplain := []\<rparr>"
    have "t' = ?t1 \<or> (\<exists>l o2 l2. Tester_runQuery E run ?t1 q l = (o2, t', l2))"
      using step typ_Query False
      by (auto simp: Run_step_def Let_def split: outcome.splits sum.splits prod.splits)
    then show ?thesis
    proof
      assume "t' = ?t1"
      with inv show ?thesis by (simp add: scopes_exclusive_def)
    next
      assume "\<exists>l o2 l2. Tester_runQuery E run ?t1 q l = (o2, t', l2)"
      then obtain l o2 l2 where "Tester_runQuery E run ?t1 q l = (o2, t', l2)" by blast
      from Tester_runQuery_scopes [OF this] inv show ?thesis
        by (simp add: scopes_exclusive_def)
    qed
  qed
next
  case typ_VitessOnly
  with step have "state t' = snd (vitessOrMySQLOnly (Query q) beginVitessOnly endVitessOnly (state t))"
    by (auto simp: Run_step_def split: prod.splits option.splits)
  with vitessOnly_directive_exclusive [OF inv] show ?thesis by simp
next
  case typ_MysqlOnly
  with step have "state t' = snd (vitessOrMySQLOnly (Query q) beginMySQLOnly endMySQLOnly (state t))"
    by (auto simp: Run_step_def split: prod.splits option.splits)
  with mysqlOnly_directive_exclusive [OF inv] show ?thesis by simp
qed (use inv step in \<open>auto simp: Run_step_def Let_def scopes_exclusive_def skipNext_def
        referenceNext_def skipIfBelow_def split: if_splits sum.splits option.splits\<close>)

lemma Run_loop_exclusive:
  "scopes_exclusive (state t) \<Longrightarrow> Run_loop E run t queries log = (out, t', log')
     \<Longrightarrow> scopes_exclusive (state t')"
proof (induction queries arbitrary: t log)
  case Nil
  then show ?case by simp
next
  case (Cons q queries)
  obtain o1 t1 l1 where s: "Run_step E run t q log = (o1, t1, l1)"
    by (metis prod_cases3)
  from Run_step_exclusive [OF Cons.prems(1) s] have inv1: "scopes_exclusive (state t1)" .
  show ?case
  proof (cases o1)
    case Panicked
    with Cons.prems(2) s inv1 show ?thesis by simp
  next
    case (Returned r)
    show ?thesis
    proof (cases r)
      case None
      with Cons.prems(2) s Returned have "Run_loop E run t1 queries l1 = (out, t', log')"
        by simp
      from Cons.IH [OF inv1 this] show ?thesis .
    next
      case (Some e)
      with Cons.prems(2) s Returned inv1 show ?thesis by simp
    qed
  qed
qed

lemma Run_loop_append:
  "Run_loop E run t (xs @ ys) log =
     (case Run_loop E run t xs log of
        (Returned None, t', log') \<Rightarrow> Run_loop E run t' ys log'
      | r \<Rightarrow> r)"
  by (induction xs arbitrary: t log)
     (auto split: prod.splits outcome.splits option.splits)

text \<open>
  Claim C2. Starting from the fresh mode state, after any prefix of any stream of
  directives (whether the loop ran through the prefix, returned early or panicked),
  \<open>vitessOnly\<close> and \<open>mysqlOnly\<close> are not both true.
\<close>

theorem only_scopes_never_both:
  assumes "Run_loop E run (NewTester r) (take n queries) log = (out, t', log')"
  shows "\<not> (vitessOnly (state t') \<and> mysqlOnly (state t'))"
proof -
  have "scopes_exclusive (state (NewTester r))"
    by (simp add: scopes_exclusive_def NewTester_def fresh_state_def)
  from Run_loop_exclusive [OF this assms] show ?thesis
    by (simp add: scopes_exclusive_def)
qed

text \<open>After \<^verbatim>\<open>vitess_only begin\<close> and \<^verbatim>\<open>mysql_only begin\<close> the second begin was refused.\<close>

theorem only_scopes_never_both_witness:
  "Run_loop sample_env (Tracer_runQuery sample_env) (NewTester (newTracer True))
      (take 2 [directive typ_VitessOnly ''vitess_only begin'' 1,
               directive typ_MysqlOnly ''mysql_only begin'' 2,
               directive typ_Query ''select 1'' 3]) []
     = (Returned None,
        \<lparr>vexplain = [], expectedErrs = False, state = fresh_state\<lparr>vitessOnly := True\<rparr>,
         qr = newTracer True\<rparr>,
        [AddFailure (Errorf ''cannot begin mysql_only within vitess_only'')])
   \<and> \<not> (vitessOnly (fresh_state\<lparr>vitessOnly := True\<rparr>)
          \<and> mysqlOnly (fresh_state\<lparr>vitessOnly := True\<rparr>))"
proof -
  have run: "Run_loop sample_env (Tracer_runQuery sample_env) (NewTester (newTracer True))
      (take 2 [directive typ_VitessOnly ''vitess_only begin'' 1,
               directive typ_MysqlOnly ''mysql_only begin'' 2,
               directive typ_Query ''select 1'' 3]) []
     = (Returned None,
        \<lparr>vexplain = [], expectedErrs = False, state = fresh_state\<lparr>vitessOnly := True\<rparr>,
         qr = newTracer True\<rparr>,
        [AddFailure (Errorf ''cannot begin mysql_only within vitess_only'')])"
    by (simp add: Run_step_def directive_def NewTester_def fresh_state_def
          vitessOrMySQLOnly_def beginVitessOnly_def beginMySQLOnly_def Let_def)
  from only_scopes_never_both [OF run] run show ?thesis by simp
qed

lemma Tester_runQuery_cases:
  assumes "Tester_runQuery E run t q log = (out, t', log')"
  obtains
    (skipped) st1 log1 where "shouldSkip E (state t) log = (True, st1, log1)"
      "out = Returned ()" "t' = t\<lparr>state := st1\<rparr>" "log' = log1"
  | (unparsed) st1 log1 err where "shouldSkip E (state t) log = (False, st1, log1)"
      "Parse E (Query q) = Inl err"
      "out = Returned ()" "t' = t\<lparr>state := st1\<rparr>"
      "log' = log1 @ [AddTestCase (Query q) (Line q), AddFailure err]"
  | (panicked) st1 log1 a where "shouldSkip E (state t) log = (False, st1, log1)"
      "Parse E (Query q) = Inr a" "out = Panicked" "expectedErrs t' = expectedErrs t"
      "fst (run (qr t) q (expectedErrs t)
             \<lparr>ast = a, vitess = \<not> mysqlOnly st1, mysql = \<not> vitessOnly st1,
              cfg_reference = reference st1\<rparr>
             (log1 @ [AddTestCase (Query q) (Line q)])) = Panicked"
  | (ran) st1 log1 a err r' log3 where "shouldSkip E (state t) log = (False, st1, log1)"
      "Parse E (Query q) = Inr a"
      "run (qr t) q (expectedErrs t)
             \<lparr>ast = a, vitess = \<not> mysqlOnly st1, mysql = \<not> vitessOnly st1,
              cfg_reference = reference st1\<rparr>
             (log1 @ [AddTestCase (Query q) (Line q)]) = (Returned err, r', log3)"
      "out = Returned ()" "\<not> expectedErrs t'" "qr t' = r'"
      "log' = log3 @ map AddFailure (opt_list err) @ [EndTestCase]"
proof -
  obtain sk st1 log1 where sk: "shouldSkip E (state t) log = (sk, st1, log1)"
    by (metis prod_cases3)
  show thesis
  proof (cases sk)
    case True
    with assms sk show thesis
      by (intro skipped [of st1 log1]) (auto simp: Tester_runQuery_def)
  next
    case nsk: False
    show thesis
    proof (cases "Parse E (Query q)")
      case (Inl err)
      with assms sk nsk show thesis
        by (intro unparsed [of st1 log1 err]) (auto simp: Tester_runQuery_def Let_def)
    next
      case (Inr a)
      let ?cfg = "\<lparr>ast = a, vitess = \<not> mysqlOnly st1, mysql = \<not> vitessOnly st1,
              cfg_reference = reference st1\<rparr>"
      let ?l2 = "log1 @ [AddTestCase (Query q) (Line q)]"
      obtain ro r' log3 where run: "run (qr t) q (expectedErrs t) ?cfg ?l2 = (ro, r', log3)"
        by (metis prod_cases3)
      show thesis
      proof (cases ro)
        case Panicked
        with assms sk nsk Inr run show thesis
          by (intro panicked [of st1 log1 a])
             (auto simp: Tester_runQuery_def Let_def shouldReference_def split: if_splits)
      next
        case (Returned err)
        with assms sk nsk Inr run show thesis
          by (intro ran [of st1 log1 a err r' log3])
             (auto simp: Tester_runQuery_def Let_def shouldReference_def opt_list_def
                   split: if_splits option.splits)
      qed
    qed
  qed
qed

text \<open>A statement that does not parse: the failure is reported, \<^verbatim>\<open>runQuery\<close> returns
  before the reset and \<open>expectedErrs\<close> keeps its value.\<close>

lemma unparsed_query_keeps_expectedErrs:
  assumes "Tester_runQuery E run t q log = (out, t', log')"
      and "\<not> fst (shouldSkip E (state t) log)" and "Parse E (Query q) = Inl err"
  shows "out = Returned () \<and> expectedErrs t' = expectedErrs t
         \<and> (\<exists>l. log' = l @ [AddTestCase (Query q) (Line q), AddFailure err])"
  using assms(1)
  by (cases rule: Tester_runQuery_cases) (use assms(2,3) in auto)

lemma Run_step_Query_cases:
  assumes "Type q = typ_Query" and "Run_step E run t q log = (out, t', log')"
      and "out \<noteq> Panicked"
  shows "out = Returned None
         \<and> (\<exists>log0. Tester_runQuery E run (t\<lparr>vexplain := []\<rparr>) q log0 = (Returned (), t', log')
               \<and> (if vexplain t = [] then log0 = log
            else \<exists>rows cell.
                   vt_ExecuteFetch E log (''vexplain '' @ vexplain t @ '' '' @ Query q) = Inr rows
                   \<and> first_cell rows = Returned cell
                   \<and> log0 = log @ [VtExec (''vexplain '' @ vexplain t @ '' '' @ Query q),
                                   AddInfo (''VExplain Output:'' @ [CHR 0x0A] @ '' '' @ cell @ [CHR 0x0A])]))"
proof (cases "vexplain t = []")
  case True
  then have eq: "t\<lparr>vexplain := []\<rparr> = t" by (cases t) simp
  from assms True
  have "out = Returned None \<and> Tester_runQuery E run t q log = (Returned (), t', log')"
    by (auto simp: Run_step_def Let_def split: outcome.splits prod.splits)
  then show ?thesis unfolding eq using True by simp
next
  case False
  with assms show ?thesis
    by (auto simp: Run_step_def Let_def split: outcome.splits prod.splits sum.splits)
qed

text \<open>
  Claim C3, as amended. A query directive whose handling does not panic: \<open>log0\<close> is
  the log when \<^verbatim>\<open>Tester.runQuery\<close> starts (the log of the iteration, after the explain
  and its output when an explain mode was pending). If \<^verbatim>\<open>shouldSkip\<close> answers true
  there, the query is skipped: nothing more is reported, the runner and its state are
  left alone, the log is the one \<^verbatim>\<open>shouldSkip\<close> returned, and \<open>expectedErrs\<close> keeps
  the value it had. If it answers false and the statement parses, \<open>expectedErrs\<close> is false
  afterwards, whether the runner returned an error or not.
\<close>

theorem expectedErrs_after_query_directive:
  assumes "Type q = typ_Query" and "Run_step E run t q log = (out, t', log')"
      and "out \<noteq> Panicked"
  shows "\<exists>log0 sk st1 log1.
           (if vexplain t = [] then log0 = log
            else \<exists>rows cell.
                   vt_ExecuteFetch E log (''vexplain '' @ vexplain t @ '' '' @ Query q) = Inr rows
                   \<and> first_cell rows = Returned cell
                   \<and> log0 = log @ [VtExec (''vexplain '' @ vexplain t @ '' '' @ Query q),
                                   AddInfo (''VExplain Output:'' @ [CHR 0x0A] @ '' '' @ cell @ [CHR 0x0A])])
           \<and> shouldSkip E (state t) log0 = (sk, st1, log1)
           \<and> (if sk
               then t' = t\<lparr>vexplain := [], state := st1\<rparr>
                    \<and> expectedErrs t' = expectedErrs t \<and> qr t' = qr t \<and> log' = log1
               else (\<exists>a. Parse E (Query q) = Inr a) \<longrightarrow> \<not> expectedErrs t')"
proof -
  from Run_step_Query_cases [OF assms] obtain log0 where
    rq: "Tester_runQuery E run (t\<lparr>vexplain := []\<rparr>) q log0 = (Returned (), t', log')"
    and l0: "(if vexplain t = [] then log0 = log
            else \<exists>rows cell.
                   vt_ExecuteFetch E log (''vexplain '' @ vexplain t @ '' '' @ Query q) = Inr rows
                   \<and> first_cell rows = Returned cell
                   \<and> log0 = log @ [VtExec (''vexplain '' @ vexplain t @ '' '' @ Query q),
                                   AddInfo (''VExplain Output:'' @ [CHR 0x0A] @ '' '' @ cell @ [CHR 0x0A])])"
    by blast
  from rq have "\<exists>sk st1 log1. shouldSkip E (state t) log0 = (sk, st1, log1)
           \<and> (if sk
               then t' = t\<lparr>vexplain := [], state := st1\<rparr>
                    \<and> expectedErrs t' = expectedErrs t \<and> qr t' = qr t \<and> log' = log1
               else (\<exists>a. Parse E (Query q) = Inr a) \<longrightarrow> \<not> expectedErrs t')"
    by (cases rule: Tester_runQuery_cases) auto
  with l0 show ?thesis by blast
qed

text \<open>A query that fails on both backends clears the flag; a skipped query keeps it and
  leaves no trace in the log.\<close>

theorem expectedErrs_after_query_directive_witness:
  "Type (directive typ_Query ''select 1'' 3) = typ_Query
   \<and> Run_step failing_backends_env (Tracer_runQuery failing_backends_env)
         ((NewTester (newTracer False))\<lparr>expectedErrs := True\<rparr>)
         (directive typ_Query ''select 1'' 3) []
       = (Returned None, NewTester (newTracer False),
          [AddTestCase ''select 1'' 3,
           InnerCall (directive typ_Query ''select 1'' 3) True select_cfg,
           VtExec ''vexplain trace select 1'',
           AddFailure (External ''target: table not found''),
           EndTestCase])
   \<and> \<not> expectedErrs (NewTester (newTracer False))
   \<and> Run_step sample_env (Tracer_runQuery sample_env)
         ((NewTester (newTracer False))\<lparr>expectedErrs := True, state := fresh_state\<lparr>skip := True\<rparr>\<rparr>)
         (directive typ_Query ''select 1'' 3) []
       = (Returned None, (NewTester (newTracer False))\<lparr>expectedErrs := True\<rparr>, [])
   \<and> expectedErrs ((NewTester (newTracer False))\<lparr>expectedErrs := True\<rparr>)"
proof -
  let ?q = "directive typ_Query ''select 1'' 3"
  let ?t1 = "(NewTester (newTracer False))\<lparr>expectedErrs := True\<rparr>"
  let ?t2 = "(NewTester (newTracer False))\<lparr>expectedErrs := True, state := fresh_state\<lparr>skip := True\<rparr>\<rparr>"
  have ty: "Type ?q = typ_Query" by (simp add: directive_def)
  have s1: "Run_step failing_backends_env (Tracer_runQuery failing_backends_env) ?t1 ?q []
       = (Returned None, NewTester (newTracer False),
          [AddTestCase ''select 1'' 3,
           InnerCall (directive typ_Query ''select 1'' 3) True select_cfg,
           VtExec ''vexplain trace select 1'',
           AddFailure (External ''target: table not found''),
           EndTestCase])"
    by (simp add: Run_step_def directive_def NewTester_def fresh_state_def
        Tester_runQuery_def shouldSkip_def shouldReference_def failing_backends_env_def
        sample_env_def sample_Parse_def Tracer_runQuery_def newTracer_def Let_def
        trace_def Marshal_string_def select_cfg_def)
  have s2: "Run_step sample_env (Tracer_runQuery sample_env) ?t2 ?q []
       = (Returned None, ?t1, [])"
    by (simp add: Run_step_def directive_def NewTester_def fresh_state_def
        Tester_runQuery_def shouldSkip_def Let_def)
  have np: "(Returned None :: error option outcome) \<noteq> Panicked" by simp
  from expectedErrs_after_query_directive [OF ty s1 np]
  have e1: "\<not> expectedErrs (NewTester (newTracer False))"
    by (simp add: NewTester_def)
  from expectedErrs_after_query_directive [OF ty s2 np]
  have e2: "expectedErrs ?t1"
    by (simp add: NewTester_def)
  from ty s1 e1 s2 e2 show ?thesis by simp
qed

text \<open>
  Claim C3 as stated fails: after \<^verbatim>\<open>skip\<close>, \<^verbatim>\<open>error\<close> and a query, the query is
  skipped and \<open>expectedErrs\<close> is still true.
\<close>

theorem skipped_query_keeps_expectedErrs:
  "Run_loop sample_env (Tracer_runQuery sample_env) (NewTester (newTracer True))
     [directive typ_Skip ''skip'' 1, directive typ_Error ''error'' 2,
      directive typ_Query ''select 1'' 3] []
   = (Returned None,
      \<lparr>vexplain = [], expectedErrs = True, state = fresh_state, qr = newTracer True\<rparr>,
      [])"
  by (simp add: Run_step_def directive_def NewTester_def fresh_state_def skipNext_def
        Tester_runQuery_def shouldSkip_def)

lemma Run_step_returns:
  assumes "Run_step E run t q log = (out, t', log')" and "out \<noteq> Panicked"
  shows "if Type q = typ_RemoveFile
         then t' = t \<and> log' = log @ [Remove (TrimSpace E (Query q))]
              \<and> out = Returned (map_option (Wrapped ''failed to remove file'')
                                   (os_Remove E log (TrimSpace E (Query q))))
         else out = Returned None"
proof (cases "Type q")
  case typ_Query
  from Run_step_Query_cases [OF typ_Query assms] typ_Query show ?thesis by simp
qed (use assms in \<open>auto simp: Run_step_def Let_def split: if_splits sum.splits option.splits prod.splits\<close>)

lemma Run_loop_returns:
  "Run_loop E run t queries log = (out, t', log') \<Longrightarrow> out \<noteq> Panicked \<Longrightarrow>
     out = Returned None
     \<or> (\<exists>pre q post logq err.
           queries = pre @ q # post \<and> Type q = typ_RemoveFile
           \<and> Run_loop E run t pre log = (Returned None, t', logq)
           \<and> os_Remove E logq (TrimSpace E (Query q)) = Some err
           \<and> out = Returned (Some (Wrapped ''failed to remove file'' err))
           \<and> log' = logq @ [Remove (TrimSpace E (Query q))])"
proof (induction queries arbitrary: t log)
  case Nil
  then show ?case by simp
next
  case (Cons q queries)
  obtain o1 t1 l1 where s: "Run_step E run t q log = (o1, t1, l1)"
    by (metis prod_cases3)
  show ?case
  proof (cases o1)
    case Panicked
    with Cons.prems s show ?thesis by simp
  next
    case (Returned r)
    show ?thesis
    proof (cases r)
      case None
      with Cons.prems s Returned have rest: "Run_loop E run t1 queries l1 = (out, t', log')"
        by simp
      from Cons.IH [OF rest Cons.prems(2)] show ?thesis
      proof
        assume "out = Returned None"
        then show ?thesis by simp
      next
        assume "\<exists>pre q' post logq err.
           queries = pre @ q' # post \<and> Type q' = typ_RemoveFile
           \<and> Run_loop E run t1 pre l1 = (Returned None, t', logq)
           \<and> os_Remove E logq (TrimSpace E (Query q')) = Some err
           \<and> out = Returned (Some (Wrapped ''failed to remove file'' err))
           \<and> log' = logq @ [Remove (TrimSpace E (Query q'))]"
        then obtain pre q' post logq err where h:
           "queries = pre @ q' # post" "Type q' = typ_RemoveFile"
           "Run_loop E run t1 pre l1 = (Returned None, t', logq)"
           "os_Remove E logq (TrimSpace E (Query q')) = Some err"
           "out = Returned (Some (Wrapped ''failed to remove file'' err))"
           "log' = logq @ [Remove (TrimSpace E (Query q'))]"
          by blast
        have "q # queries = (q # pre) @ q' # post" using h(1) by simp
        moreover have "Run_loop E run t (q # pre) log = (Returned None, t', logq)"
          using s Returned None h(3) by simp
        ultimately show ?thesis using h(2,4,5,6) by blast
      qed
    next
      case (Some e)
      with Cons.prems s Returned have res: "out = Returned (Some e)" "t' = t1" "log' = l1"
        by auto
      have np: "o1 \<noteq> Panicked" using Returned by simp
      from Run_step_returns [OF s np] Returned Some
      have rm: "Type q = typ_RemoveFile" "t1 = t" "l1 = log @ [Remove (TrimSpace E (Query q))]"
        "Some e = map_option (Wrapped ''failed to remove file'')
                                   (os_Remove E log (TrimSpace E (Query q)))"
        by (auto split: if_splits)
      then obtain err where err: "os_Remove E log (TrimSpace E (Query q)) = Some err"
        "e = Wrapped ''failed to remove file'' err"
        by (cases "os_Remove E log (TrimSpace E (Query q))") auto
      have "q # queries = [] @ q # queries" by simp
      moreover have "Run_loop E run t [] log = (Returned None, t', log)"
        using res rm by simp
      ultimately show ?thesis using rm(1,3) err res by blast
    qed
  qed
qed

lemma control_errors_reported:
  "(Type q = typ_SkipIfBelowVersion \<and> length (Split (Query q)) \<noteq> 3 \<longrightarrow>
      (\<exists>e. Run_step E run t q log = (Returned None, t, log @ [AddFailure e])))
   \<and> (Type q = typ_SkipIfBelowVersion \<and> length (Split (Query q)) = 3
        \<and> Atoi (Split (Query q) ! 2) = Inl e \<longrightarrow>
      Run_step E run t q log = (Returned None, t, log @ [AddFailure e]))
   \<and> (Type q = typ_VExplain \<and> length (Split (Query q)) \<noteq> 2 \<longrightarrow>
      (\<exists>e. Run_step E run t q log = (Returned None, t, log @ [AddFailure e])))
   \<and> (Type q = typ_VitessOnly
        \<and> fst (vitessOrMySQLOnly (Query q) beginVitessOnly endVitessOnly (state t)) = Some e \<longrightarrow>
      Run_step E run t q log = (Returned None, t, log @ [AddFailure e]))
   \<and> (Type q = typ_MysqlOnly
        \<and> fst (vitessOrMySQLOnly (Query q) beginMySQLOnly endMySQLOnly (state t)) = Some e \<longrightarrow>
      Run_step E run t q log = (Returned None, t, log @ [AddFailure e]))
   \<and> (Type q \<in> {typ_Comment, typ_EmptyLine, typ_Unknown} \<longrightarrow>
      (\<exists>e. Run_step E run t q log = (Returned None, t, log @ [AddFailure e])))"
  by (auto simp: Run_step_def Let_def vitessOrMySQLOnly_def beginVitessOnly_def
        endVitessOnly_def beginMySQLOnly_def endMySQLOnly_def
        split: if_splits prod.splits option.splits)

text \<open>A pending explain mode whose execution fails: the failure is reported, then
  \<^verbatim>\<open>result.Rows[0][0]\<close> is read from the nil result and the iteration panics.\<close>

lemma failed_explain_panics:
  assumes "Type q = typ_Query" and "vexplain t \<noteq> []"
      and "vt_ExecuteFetch E log (''vexplain '' @ vexplain t @ '' '' @ Query q) = Inl err"
  shows "Run_step E run t q log
           = (Panicked, t\<lparr>vexplain := []\<rparr>,
              log @ [VtExec (''vexplain '' @ vexplain t @ '' '' @ Query q), AddFailure err])"
  using assms by (simp add: Run_step_def Let_def)

lemma loop_goes_on:
  "(Run_step E run ts d ls = (Returned None, ts', ls') \<longrightarrow>
      Run_loop E run ts (d # rest) ls = Run_loop E run ts' rest ls')"
  by simp

lemma failed_remove_returns:
  "((Type d = typ_RemoveFile \<and> os_Remove E ls (TrimSpace E (Query d)) = Some e \<longrightarrow>
       Run_step E run ts d ls
         = (Returned (Some (Wrapped ''failed to remove file'' e)), ts,
            ls @ [Remove (TrimSpace E (Query d))])
       \<and> Run_loop E run ts (d # rest) ls
         = (Returned (Some (Wrapped ''failed to remove file'' e)), ts,
            ls @ [Remove (TrimSpace E (Query d))]))
    \<and> (Type d = typ_RemoveFile \<and> os_Remove E ls (TrimSpace E (Query d)) = None \<longrightarrow>
       Run_step E run ts d ls = (Returned None, ts, ls @ [Remove (TrimSpace E (Query d))])))"
  by (simp add: Run_step_def Let_def)

lemma step_goes_on:
  "(Run_step E run ts d ls = (outs, ts', ls') \<and> outs \<noteq> Panicked
        \<and> Type d \<noteq> typ_RemoveFile \<longrightarrow> outs = Returned None)"
  using Run_step_returns [of E run ts d ls outs ts' ls'] by auto

lemma wait_errors_reported:
  "((Type d = typ_WaitForAuthoritative \<and> length (Split (Query d)) = 2
        \<and> findTable E ls (Split (Query d) ! 1) = Inl e \<longrightarrow>
      Run_step E run ts d ls = (Returned None, ts, ls @ [AddFailure e]))
   \<and> (Type d = typ_WaitForAuthoritative \<and> length (Split (Query d)) = 2
        \<and> findTable E ls (Split (Query d) ! 1) = Inr ks
        \<and> WaitForAuthoritative E ls ks (Split (Query d) ! 1) = Some e \<longrightarrow>
      Run_step E run ts d ls
        = (Returned None, ts,
           ls @ [WaitAuthoritative ks (Split (Query d) ! 1),
                 AddFailure (Wrapped (''failed to wait for authoritative schema for table ''
                                      @ Split (Query d) ! 1) e)]))
   \<and> (Type d = typ_WaitForAuthoritative \<and> length (Split (Query d)) = 3
        \<and> WaitForAuthoritative E ls (Split (Query d) ! 2) (Split (Query d) ! 1) = Some e \<longrightarrow>
      Run_step E run ts d ls
        = (Returned None, ts,
           ls @ [WaitAuthoritative (Split (Query d) ! 2) (Split (Query d) ! 1),
                 AddFailure (Wrapped (''failed to wait for authoritative schema for table ''
                                      @ Split (Query d) ! 1) e)]))
   \<and> (Type d = typ_WaitForAuthoritative \<and> length (Split (Query d)) \<noteq> 2
        \<and> length (Split (Query d)) \<noteq> 3 \<longrightarrow>
      (\<exists>more. Run_step E run ts d ls
           = (Returned None, ts,
              ls @ AddFailure (Errorf
                     (''expected table name and keyspace for wait_authoritative in: ''
                      @ Query d))
                 # WaitAuthoritative [] [] # more)
         \<and> (WaitForAuthoritative E
               (ls @ [AddFailure (Errorf
                     (''expected table name and keyspace for wait_authoritative in: ''
                      @ Query d))]) [] [] = Some e \<longrightarrow>
             more = [AddFailure (Wrapped ''failed to wait for authoritative schema for table '' e)]))))"
  by (auto simp: Run_step_def waitAuthoritative_def wait_for_def Let_def split: option.splits)

lemma query_errors_reported:
  "(Type d = typ_Query \<and> Run_step E run ts d ls = (outs, ts', ls') \<and> outs \<noteq> Panicked \<longrightarrow>
        (\<exists>log0 sk st1 log1.
           (if vexplain ts = [] then log0 = ls
            else \<exists>rows cell.
                   vt_ExecuteFetch E ls (''vexplain '' @ vexplain ts @ '' '' @ Query d) = Inr rows
                   \<and> first_cell rows = Returned cell
                   \<and> log0 = ls @ [VtExec (''vexplain '' @ vexplain ts @ '' '' @ Query d),
                                   AddInfo (''VExplain Output:'' @ [CHR 0x0A] @ '' '' @ cell @ [CHR 0x0A])])
           \<and> shouldSkip E (state ts) log0 = (sk, st1, log1)
           \<and> (if sk then ls' = log1
               else case Parse E (Query d) of
                      Inl e \<Rightarrow> ls' = log1 @ [AddTestCase (Query d) (Line d), AddFailure e]
                    | Inr a \<Rightarrow>
                        (\<exists>err r' log3.
                           run (qr ts) d (expectedErrs ts)
                             \<lparr>ast = a, vitess = \<not> mysqlOnly st1, mysql = \<not> vitessOnly st1,
                              cfg_reference = reference st1\<rparr>
                             (log1 @ [AddTestCase (Query d) (Line d)]) = (Returned err, r', log3)
                           \<and> ls' = log3 @ map AddFailure (opt_list err) @ [EndTestCase]))))"
proof (intro impI, elim conjE)
  assume a: "Type d = typ_Query" "Run_step E run ts d ls = (outs, ts', ls')" "outs \<noteq> Panicked"
  from Run_step_Query_cases [OF a] obtain log0 where
    rq: "Tester_runQuery E run (ts\<lparr>vexplain := []\<rparr>) d log0 = (Returned (), ts', ls')"
    and l0: "(if vexplain ts = [] then log0 = ls
            else \<exists>rows cell.
                   vt_ExecuteFetch E ls (''vexplain '' @ vexplain ts @ '' '' @ Query d) = Inr rows
                   \<and> first_cell rows = Returned cell
                   \<and> log0 = ls @ [VtExec (''vexplain '' @ vexplain ts @ '' '' @ Query d),
                                   AddInfo (''VExplain Output:'' @ [CHR 0x0A] @ '' '' @ cell @ [CHR 0x0A])])"
    by blast
  from rq have "\<exists>sk st1 log1.
           shouldSkip E (state ts) log0 = (sk, st1, log1)
           \<and> (if sk then ls' = log1
               else case Parse E (Query d) of
                      Inl e \<Rightarrow> ls' = log1 @ [AddTestCase (Query d) (Line d), AddFailure e]
                    | Inr a \<Rightarrow>
                        (\<exists>err r' log3.
                           run (qr ts) d (expectedErrs ts)
                             \<lparr>ast = a, vitess = \<not> mysqlOnly st1, mysql = \<not> vitessOnly st1,
                              cfg_reference = reference st1\<rparr>
                             (log1 @ [AddTestCase (Query d) (Line d)]) = (Returned err, r', log3)
                           \<and> ls' = log3 @ map AddFailure (opt_list err) @ [EndTestCase]))"
    by (cases rule: Tester_runQuery_cases) auto
  with l0 show "\<exists>log0 sk st1 log1.
           (if vexplain ts = [] then log0 = ls
            else \<exists>rows cell.
                   vt_ExecuteFetch E ls (''vexplain '' @ vexplain ts @ '' '' @ Query d) = Inr rows
                   \<and> first_cell rows = Returned cell
                   \<and> log0 = ls @ [VtExec (''vexplain '' @ vexplain ts @ '' '' @ Query d),
                                   AddInfo (''VExplain Output:'' @ [CHR 0x0A] @ '' '' @ cell @ [CHR 0x0A])])
           \<and> shouldSkip E (state ts) log0 = (sk, st1, log1)
           \<and> (if sk then ls' = log1
               else case Parse E (Query d) of
                      Inl e \<Rightarrow> ls' = log1 @ [AddTestCase (Query d) (Line d), AddFailure e]
                    | Inr a \<Rightarrow>
                        (\<exists>err r' log3.
                           run (qr ts) d (expectedErrs ts)
                             \<lparr>ast = a, vitess = \<not> mysqlOnly st1, mysql = \<not> vitessOnly st1,
                              cfg_reference = reference st1\<rparr>
                             (log1 @ [AddTestCase (Query d) (Line d)]) = (Returned err, r', log3)
                           \<and> ls' = log3 @ map AddFailure (opt_list err) @ [EndTestCase]))"
    by blast
qed

text \<open>
  Claim C4, as amended. A failed file removal makes \<^verbatim>\<open>Run\<close> return: the iteration of a
  \<^verbatim>\<open>RemoveFile\<close> directive whose \<^verbatim>\<open>os.Remove\<close> fails returns the wrapped error right
  after the removal, with nothing reported, and the loop returns it without looking at
  the directives that follow; a removal that succeeds lets the loop go on. That is the
  only way the loop returns early: as long as no iteration panics, the loop reaches the
  end of the stream unless a removal failed. Every other iteration that returns hands
  over to the next directive, and it reports its errors with \<^verbatim>\<open>AddFailure\<close>: a
  malformed \<^verbatim>\<open>SkipIfBelowVersion\<close> or \<^verbatim>\<open>VExplain\<close> directive, a scope error, a kind
  that is not supported, for a \<^verbatim>\<open>WaitForAuthoritative\<close> directive the failed table
  lookup, the failed wait and the malformed directive, and for a query that is not
  skipped the parse error or the error of the runner (\<open>log0\<close> is the log when
  \<^verbatim>\<open>Tester.runQuery\<close> starts).
\<close>

theorem only_failed_remove_leaves_loop:
  "(Run_loop E run t queries log = (out, t', log') \<and> out \<noteq> Panicked \<longrightarrow>
      out = Returned None
      \<or> (\<exists>pre q post logq err.
            queries = pre @ q # post \<and> Type q = typ_RemoveFile
            \<and> Run_loop E run t pre log = (Returned None, t', logq)
            \<and> os_Remove E logq (TrimSpace E (Query q)) = Some err
            \<and> out = Returned (Some (Wrapped ''failed to remove file'' err))
            \<and> log' = logq @ [Remove (TrimSpace E (Query q))]))
   \<and> (Run_step E run ts d ls = (Returned None, ts', ls') \<longrightarrow>
      Run_loop E run ts (d # rest) ls = Run_loop E run ts' rest ls')
   \<and> ((Type d = typ_RemoveFile \<and> os_Remove E ls (TrimSpace E (Query d)) = Some e \<longrightarrow>
       Run_step E run ts d ls
         = (Returned (Some (Wrapped ''failed to remove file'' e)), ts,
            ls @ [Remove (TrimSpace E (Query d))])
       \<and> Run_loop E run ts (d # rest) ls
         = (Returned (Some (Wrapped ''failed to remove file'' e)), ts,
            ls @ [Remove (TrimSpace E (Query d))]))
    \<and> (Type d = typ_RemoveFile \<and> os_Remove E ls (TrimSpace E (Query d)) = None \<longrightarrow>
       Run_step E run ts d ls = (Returned None, ts, ls @ [Remove (TrimSpace E (Query d))])))
   \<and> (Run_step E run ts d ls = (outs, ts', ls') \<and> outs \<noteq> Panicked
        \<and> Type d \<noteq> typ_RemoveFile \<longrightarrow> outs = Returned None)
   \<and> ((Type d = typ_SkipIfBelowVersion \<and> length (Split (Query d)) \<noteq> 3 \<longrightarrow>
      (\<exists>e. Run_step E run ts d ls = (Returned None, ts, ls @ [AddFailure e])))
   \<and> (Type d = typ_SkipIfBelowVersion \<and> length (Split (Query d)) = 3
        \<and> Atoi (Split (Query d) ! 2) = Inl e \<longrightarrow>
      Run_step E run ts d ls = (Returned None, ts, ls @ [AddFailure e]))
   \<and> (Type d = typ_VExplain \<and> length (Split (Query d)) \<noteq> 2 \<longrightarrow>
      (\<exists>e. Run_step E run ts d ls = (Returned None, ts, ls @ [AddFailure e])))
   \<and> (Type d = typ_VitessOnly
        \<and> fst (vitessOrMySQLOnly (Query d) beginVitessOnly endVitessOnly (state ts)) = Some e \<longrightarrow>
      Run_step E run ts d ls = (Returned None, ts, ls @ [AddFailure e]))
   \<and> (Type d = typ_MysqlOnly
        \<and> fst (vitessOrMySQLOnly (Query d) beginMySQLOnly endMySQLOnly (state ts)) = Some e \<longrightarrow>
      Run_step E run ts d ls = (Returned None, ts, ls @ [AddFailure e]))
   \<and> (Type d \<in> {typ_Comment, typ_EmptyLine, typ_Unknown} \<longrightarrow>
      (\<exists>e. Run_step E run ts d ls = (Returned None, ts, ls @ [AddFailure e]))))
   \<and> ((Type d = typ_WaitForAuthoritative \<and> length (Split (Query d)) = 2
        \<and> findTable E ls (Split (Query d) ! 1) = Inl e \<longrightarrow>
      Run_step E run ts d ls = (Returned None, ts, ls @ [AddFailure e]))
   \<and> (Type d = typ_WaitForAuthoritative \<and> length (Split (Query d)) = 2
        \<and> findTable E ls (Split (Query d) ! 1) = Inr ks
        \<and> WaitForAuthoritative E ls ks (Split (Query d) ! 1) = Some e \<longrightarrow>
      Run_step E run ts d ls
        = (Returned None, ts,
           ls @ [WaitAuthoritative ks (Split (Query d) ! 1),
                 AddFailure (Wrapped (''failed to wait for authoritative schema for table ''
                                      @ Split (Query d) ! 1) e)]))
   \<and> (Type d = typ_WaitForAuthoritative \<and> length (Split (Query d)) = 3
        \<and> WaitForAuthoritative E ls (Split (Query d) ! 2) (Split (Query d) ! 1) = Some e \<longrightarrow>
      Run_step E run ts d ls
        = (Returned None, ts,
           ls @ [WaitAuthoritative (Split (Query d) ! 2) (Split (Query d) ! 1),
                 AddFailure (Wrapped (''failed to wait for authoritative schema for table ''
                                      @ Split (Query d) ! 1) e)]))
   \<and> (Type d = typ_WaitForAuthoritative \<and> length (Split (Query d)) \<noteq> 2
        \<and> length (Split (Query d)) \<noteq> 3 \<longrightarrow>
      (\<exists>more. Run_step E run ts d ls
           = (Returned None, ts,
              ls @ AddFailure (Errorf
                     (''expected table name and keyspace for wait_authoritative in: ''
                      @ Query d))
                 # WaitAuthoritative [] [] # more)
         \<and> (WaitForAuthoritative E
               (ls @ [AddFailure (Errorf
                     (''expected table name and keyspace for wait_authoritative in: ''
                      @ Query d))]) [] [] = Some e \<longrightarrow>
             more = [AddFailure (Wrapped ''failed to wait for authoritative schema for table '' e)]))))
   \<and> (Type d = typ_Query \<and> Run_step E run ts d ls = (outs, ts', ls') \<and> outs \<noteq> Panicked \<longrightarrow>
        (\<exists>log0 sk st1 log1.
           (if vexplain ts = [] then log0 = ls
            else \<exists>rows cell.
                   vt_ExecuteFetch E ls (''vexplain '' @ vexplain ts @ '' '' @ Query d) = Inr rows
                   \<and> first_cell rows = Returned cell
                   \<and> log0 = ls @ [VtExec (''vexplain '' @ vexplain ts @ '' '' @ Query d),
                                   AddInfo (''VExplain Output:'' @ [CHR 0x0A] @ '' '' @ cell @ [CHR 0x0A])])
           \<and> shouldSkip E (state ts) log0 = (sk, st1, log1)
           \<and> (if sk then ls' = log1
               else case Parse E (Query d) of
                      Inl e \<Rightarrow> ls' = log1 @ [AddTestCase (Query d) (Line d), AddFailure e]
                    | Inr a \<Rightarrow>
                        (\<exists>err r' log3.
                           run (qr ts) d (expectedErrs ts)
                             \<lparr>ast = a, vitess = \<not> mysqlOnly st1, mysql = \<not> vitessOnly st1,
                              cfg_reference = reference st1\<rparr>
                             (log1 @ [AddTestCase (Query d) (Line d)]) = (Returned err, r', log3)
                           \<and> ls' = log3 @ map AddFailure (opt_list err) @ [EndTestCase]))))"
  apply (rule conjI, use Run_loop_returns [of E run t queries log out t' log'] in blast)
  apply (rule conjI, rule loop_goes_on)
  apply (rule conjI, rule failed_remove_returns)
  apply (rule conjI, rule step_goes_on)
  apply (rule conjI, rule control_errors_reported)
  apply (rule conjI, rule wait_errors_reported)
  apply (rule query_errors_reported)
  done

text \<open>Three directives, each with an error: a scope end without begin, a comment, and a
  query the target rejects; all three are reported and the loop reaches the end. A
  wait that times out is reported. A removal that fails makes the loop return.\<close>

theorem only_failed_remove_leaves_loop_witness:
  "Run_loop failing_backends_env (Tracer_runQuery failing_backends_env)
      (NewTester (newTracer True))
      [directive typ_VitessOnly ''vitess_only end'' 1, directive typ_Comment ''# note'' 2,
       directive typ_Query ''select 1'' 3] []
     = (Returned None, NewTester (newTracer True),
        [AddFailure (Errorf ''no vitess_only to end''),
         AddFailure (Errorf ''Comment not supported''),
         AddTestCase ''select 1'' 3,
         InnerCall (directive typ_Query ''select 1'' 3) False select_cfg,
         VtExec ''vexplain trace select 1'',
         AddFailure (External ''target: table not found''),
         EndTestCase])
   \<and> Run_step failing_backends_env (Tracer_runQuery failing_backends_env)
        (NewTester (newTracer True)) (directive typ_VitessOnly ''vitess_only end'' 1) []
       = (Returned None, NewTester (newTracer True),
          [AddFailure (Errorf ''no vitess_only to end'')])
   \<and> Run_step wait_fails_env (Tracer_runQuery wait_fails_env)
        (NewTester (newTracer True))
        (directive typ_WaitForAuthoritative ''wait_authoritative t1 ks1'' 4) []
       = (Returned None, NewTester (newTracer True),
          [WaitAuthoritative ''ks1'' ''t1'',
           AddFailure (Wrapped ''failed to wait for authoritative schema for table t1''
                         (External ''timed out''))])
   \<and> Run_loop remove_fails_env (Tracer_runQuery remove_fails_env)
        (NewTester (newTracer True))
        [directive typ_RemoveFile ''gone.txt'' 5, directive typ_Query ''select 1'' 6] []
       = (Returned (Some (Wrapped ''failed to remove file''
                            (External ''no such file or directory''))),
          NewTester (newTracer True), [Remove ''gone.txt''])"
proof -
  let ?E = failing_backends_env
  let ?t = "NewTester (newTracer True)"
  let ?d = "directive typ_VitessOnly ''vitess_only end'' 1"
  let ?w = "directive typ_WaitForAuthoritative ''wait_authoritative t1 ks1'' 4"
  let ?r = "directive typ_RemoveFile ''gone.txt'' 5"
  let ?qs = "[?d, directive typ_Comment ''# note'' 2, directive typ_Query ''select 1'' 3]"
  let ?log = "[AddFailure (Errorf ''no vitess_only to end''),
         AddFailure (Errorf ''Comment not supported''),
         AddTestCase ''select 1'' 3,
         InnerCall (directive typ_Query ''select 1'' 3) False select_cfg,
         VtExec ''vexplain trace select 1'',
         AddFailure (External ''target: table not found''),
         EndTestCase]"
  have run: "Run_loop ?E (Tracer_runQuery ?E) ?t ?qs [] = (Returned None, ?t, ?log)"
    by (simp add: Run_step_def directive_def NewTester_def fresh_state_def newTracer_def
          vitessOrMySQLOnly_def endVitessOnly_def Tester_runQuery_def shouldSkip_def
          shouldReference_def failing_backends_env_def sample_env_def sample_Parse_def
          Tracer_runQuery_def trace_def Marshal_string_def select_cfg_def Let_def)
  have ty: "Type ?d = typ_VitessOnly" by (simp add: directive_def)
  have err: "fst (vitessOrMySQLOnly (Query ?d) beginVitessOnly endVitessOnly (state ?t))
       = Some (Errorf ''no vitess_only to end'')"
    by (simp add: vitessOrMySQLOnly_def endVitessOnly_def fresh_state_def NewTester_def
          directive_def)
  have scope: "Run_step ?E (Tracer_runQuery ?E) ?t ?d []
         = (Returned None, ?t, [AddFailure (Errorf ''no vitess_only to end'')])"
    using only_failed_remove_leaves_loop [where E = ?E and run = "Tracer_runQuery ?E"
             and ts = ?t and d = ?d and ls = "[]" and e = "Errorf ''no vitess_only to end''"]
          ty err
    by simp
  have wty: "Type ?w = typ_WaitForAuthoritative \<and> length (Split (Query ?w)) = 3
        \<and> WaitForAuthoritative wait_fails_env [] (Split (Query ?w) ! 2) (Split (Query ?w) ! 1)
            = Some (External ''timed out'')"
    by (simp add: directive_def wait_fails_env_def sample_env_def)
  have wsp: "Split (Query ?w) ! 2 = ''ks1''" "Split (Query ?w) ! 1 = ''t1''"
    by (simp_all add: directive_def)
  have wait: "Run_step wait_fails_env (Tracer_runQuery wait_fails_env) ?t ?w []
       = (Returned None, ?t,
          [WaitAuthoritative ''ks1'' ''t1'',
           AddFailure (Wrapped ''failed to wait for authoritative schema for table t1''
                         (External ''timed out''))])"
    using only_failed_remove_leaves_loop [where E = wait_fails_env
             and run = "Tracer_runQuery wait_fails_env"
             and ts = ?t and d = ?w and ls = "[]" and e = "External ''timed out''"]
          wty wsp
    by simp
  have rty: "Type ?r = typ_RemoveFile
        \<and> os_Remove remove_fails_env [] (TrimSpace remove_fails_env (Query ?r))
            = Some (External ''no such file or directory'')"
    by (simp add: directive_def remove_fails_env_def sample_env_def)
  have rp: "TrimSpace remove_fails_env (Query ?r) = ''gone.txt''"
    by (simp add: directive_def remove_fails_env_def sample_env_def)
  have remove: "Run_loop remove_fails_env (Tracer_runQuery remove_fails_env) ?t
        [?r, directive typ_Query ''select 1'' 6] []
       = (Returned (Some (Wrapped ''failed to remove file''
                            (External ''no such file or directory''))),
          ?t, [Remove ''gone.txt''])"
    using only_failed_remove_leaves_loop [where E = remove_fails_env
             and run = "Tracer_runQuery remove_fails_env"
             and ts = ?t and d = ?r and ls = "[]"
             and e = "External ''no such file or directory''"
             and rest = "[directive typ_Query ''select 1'' 6]"]
          rty rp
    by simp
  from run scope wait remove show ?thesis by simp
qed

text \<open>
  Claim C4 as stated fails: when \<^verbatim>\<open>os.Remove\<close> fails, the loop returns the wrapped
  error, nothing is reported and the query after the directive is not run.
\<close>

theorem failed_remove_aborts_loop:
  "Run_loop remove_fails_env (Tracer_runQuery remove_fails_env) (NewTester (newTracer True))
     [directive typ_RemoveFile ''gone.txt'' 1, directive typ_Query ''select 1'' 2] []
   = (Returned (Some (Wrapped ''failed to remove file'' (External ''no such file or directory''))),
      NewTester (newTracer True),
      [Remove ''gone.txt''])"
  by (simp add: Run_step_def directive_def remove_fails_env_def sample_env_def)

end
